(* ===== verification/Prelude.thy ===== *)
theory Prelude
  imports Complex_Main "HOL-Library.Word"
begin

text \<open>
  Shared vocabulary of the development.

  \<^item> The collection \<open>hist_defs\<close> gathers the non-recursive definitions of the model, so that
    a concrete input is evaluated by \<open>simp add: hist_defs\<close>.
  \<^item> A JavaScript string is the sequence of its UTF-16 code units: \<open>jsstring\<close> is a list of
    16-bit words, and \<open>ascii\<close> embeds a HOL string literal, one code unit per character.
  \<^item> \<open>first_seen\<close> is the specification of every "collect what was not collected yet" loop
    of the program (\<open>computeAllTagKeys\<close> in \<open>src/api.ts\<close>, the node and the member loops of
    \<open>src/routes/history.ts\<close>): the elements of a list in the order of their first occurrence.
  \<^item> \<open>first_index\<close> is the position of the first occurrence, used to state that order.
\<close>

named_theorems hist_defs "definitions that are unfolded when the model is evaluated"

type_synonym jschar = "16 word"
type_synonym jsstring = "jschar list"

definition ascii :: "string \<Rightarrow> jsstring" where
  "ascii s = map of_char s"

definition first_seen :: "'a list \<Rightarrow> 'a list" where
  "first_seen xs = rev (remdups (rev xs))"

fun first_index :: "'a list \<Rightarrow> 'a \<Rightarrow> nat" where
  "first_index [] y = 0"
| "first_index (x # xs) y = (if x = y then 0 else Suc (first_index xs y))"

declare ascii_def [hist_defs]
declare first_seen_def [hist_defs]


subsection \<open>Code-unit strings\<close>

lemma length_ascii [simp]: "length (ascii s) = length s"
  by (simp add: ascii_def)

lemma ascii_Nil [simp]: "ascii [] = []"
  by (simp add: ascii_def)

lemma ascii_append [simp]: "ascii (s @ t) = ascii s @ ascii t"
  by (simp add: ascii_def)

lemma ascii_eq_Nil_iff [simp]: "ascii s = [] \<longleftrightarrow> s = []"
  by (simp add: ascii_def)

lemma unat_of_char_jschar: "unat (of_char c :: jschar) = of_char c"
proof -
  have "(of_char c :: nat) < 2 ^ 16"
    by (rule less_trans [OF nat_of_char_less_256]) simp
  then have "unat (of_nat (of_char c) :: jschar) = of_char c"
    by (simp add: unat_of_nat)
  then show ?thesis by (simp add: of_nat_of_char)
qed

lemma of_char_jschar_inj: "(of_char c :: jschar) = of_char d \<longleftrightarrow> c = d"
proof
  assume "(of_char c :: jschar) = of_char d"
  then have "unat (of_char c :: jschar) = unat (of_char d :: jschar)" by simp
  then show "c = d" by (simp only: unat_of_char_jschar of_char_eq_iff)
qed simp

lemma ascii_inj [simp]: "ascii s = ascii t \<longleftrightarrow> s = t"
  unfolding ascii_def
  by (rule inj_map_eq_map) (simp add: inj_on_def of_char_jschar_inj)


subsection \<open>First-seen order\<close>

lemma first_seen_Nil [simp]: "first_seen [] = []"
  by (simp add: first_seen_def)

lemma set_first_seen [simp]: "set (first_seen xs) = set xs"
  by (simp add: first_seen_def)

lemma distinct_first_seen [simp]: "distinct (first_seen xs)"
  by (simp add: first_seen_def)

lemma first_seen_snoc:
  "first_seen (xs @ [x]) = (if x \<in> set xs then first_seen xs else first_seen xs @ [x])"
  by (simp add: first_seen_def)

lemma length_first_seen_le: "length (first_seen xs) \<le> length xs"
  by (metis first_seen_def length_remdups_leq length_rev)

lemma first_seen_distinct: "distinct xs \<Longrightarrow> first_seen xs = xs"
  by (simp add: first_seen_def distinct_remdups_id)

lemma first_seen_idem [simp]: "first_seen (first_seen xs) = first_seen xs"
  by (simp add: first_seen_distinct)

lemma first_seen_append:
  "first_seen (xs @ ys) = first_seen xs @ first_seen (filter (\<lambda>y. y \<notin> set xs) ys)"
proof (induction ys rule: rev_induct)
  case Nil
  show ?case by simp
next
  case (snoc y ys)
  have "first_seen (xs @ ys @ [y]) = first_seen ((xs @ ys) @ [y])"
    by simp
  also have "\<dots> = (if y \<in> set xs \<union> set ys then first_seen (xs @ ys)
      else first_seen (xs @ ys) @ [y])"
    by (simp only: first_seen_snoc set_append)
  finally show ?case
    using snoc.IH by (auto simp: first_seen_snoc)
qed

lemma first_seen_Cons:
  "first_seen (x # xs) = x # first_seen (filter (\<lambda>y. y \<noteq> x) xs)"
  using first_seen_append [of "[x]" xs] by (simp add: first_seen_def)

lemma first_seen_eq_Nil_iff [simp]: "first_seen xs = [] \<longleftrightarrow> xs = []"
  by (metis set_first_seen set_empty)


subsection \<open>Positions\<close>

lemma first_index_le_length: "first_index xs y \<le> length xs"
  by (induction xs) auto

lemma first_index_less_iff: "first_index xs y < length xs \<longleftrightarrow> y \<in> set xs"
  by (induction xs) auto

lemma first_index_length_iff: "first_index xs y = length xs \<longleftrightarrow> y \<notin> set xs"
  using first_index_le_length [of xs y] first_index_less_iff [of xs y] by auto

lemma nth_first_index: "y \<in> set xs \<Longrightarrow> xs ! first_index xs y = y"
  by (induction xs) auto

lemma first_index_least: "i < first_index xs y \<Longrightarrow> xs ! i \<noteq> y"
proof (induction xs arbitrary: i)
  case Nil
  then show ?case by simp
next
  case (Cons x xs)
  then show ?case by (cases i) (auto split: if_splits)
qed

lemma first_index_inj:
  "y \<in> set xs \<Longrightarrow> first_index xs y = first_index xs z \<Longrightarrow> y = z"
  by (induction xs) (auto split: if_splits)

lemma first_index_append:
  "first_index (xs @ ys) y =
    (if y \<in> set xs then first_index xs y else length xs + first_index ys y)"
  by (induction xs) auto

lemma first_index_filter_le:
  "P y \<Longrightarrow> first_index (filter P xs) y \<le> first_index xs y"
  by (induction xs) auto

lemma sorted_wrt_first_seen:
  "sorted_wrt (\<lambda>a b. first_index xs a < first_index xs b) (first_seen xs)"
proof (induction xs rule: rev_induct)
  case Nil
  show ?case by simp
next
  case (snoc x xs)
  have old: "sorted_wrt (\<lambda>a b. first_index (xs @ [x]) a < first_index (xs @ [x]) b)
      (first_seen xs)"
    using snoc.IH by (rule sorted_wrt_mono_rel [rotated]) (simp add: first_index_append)
  show ?case
  proof (cases "x \<in> set xs")
    case True
    with old show ?thesis by (simp add: first_seen_snoc)
  next
    case False
    then have "\<forall>a \<in> set xs. first_index (xs @ [x]) a < first_index (xs @ [x]) x"
      by (simp add: first_index_append first_index_less_iff)
    with old False show ?thesis
      by (simp add: first_seen_snoc sorted_wrt_append)
  qed
qed

lemma zip_shift_snoc:
  "zip (p # map Some xs @ [q]) (xs @ [x])
    = zip (p # map Some xs) xs @ [(if xs = [] then p else Some (last xs), x)]"
  by (induction xs arbitrary: p) simp_all

lemma replicate_numeral [simp]:
  "replicate (numeral k) x = x # replicate (pred_numeral k) x"
  by (simp add: numeral_eq_Suc)

lemma map_nth_upt: "map (\<lambda>i. f (xs ! i)) [0..<length xs] = map f xs"
proof -
  have "map (\<lambda>i. f (xs ! i)) [0..<length xs] = map f (map ((!) xs) [0..<length xs])"
    by simp
  then show ?thesis by (simp only: map_nth)
qed

end
