(* ===== verification/JSValue.thy ===== *)
theory JSValue
  imports Prelude
begin

text \<open>
  The JavaScript values that flow through \<open>changeRow\<close> (\<open>src/api.ts\<close>) and the three
  built-in conversions it applies to them.

  \<^item> \<open>jsval\<close>: \<open>null\<close>, \<open>undefined\<close>, booleans, numbers and strings. The two absent values
    are kept apart because the program tests \<open>=== null\<close> only. A number \<open>JNum m e\<close> stands
    for the decimal \<open>m / 10 ^ e\<close>, the form a JSON number literal has; it is canonical
    (\<open>num_ok\<close>) when \<open>e = 0\<close> or \<open>m\<close> has no trailing zero, and on canonical values HOL
    equality is the strict equality \<open>===\<close>.
  \<^item> \<open>js_truthy\<close> is \<open>ToBoolean\<close>, \<open>js_String\<close> is \<open>String(v)\<close>, with
    \<open>number_to_string\<close> following \<open>Number::toString\<close> (fixed notation for decimal exponents
    from \<open>-6\<close> to \<open>21\<close>, exponent notation outside).
  \<^item> \<open>parseInt10\<close> is \<open>parseInt(s, 10)\<close>, which the routes apply to the \<open>id\<close> parameter:
    leading white space, a sign, then the longest run of digits; \<open>None\<close> stands for
    \<open>NaN\<close>. The result is exact, where a JavaScript number is exact up to \<open>2 ^ 53\<close>.
  \<^item> \<open>js_replace\<close> is \<open>String.prototype.replace\<close> with a string pattern: the first
    occurrence only, and the replacement text expanded by \<open>get_substitution\<close>
    (\<open>$$\<close>, \<open>$&\<close>, \<open>$`\<close>, \<open>$'\<close>).
\<close>

datatype jsval = JNull | JUndefined | JBool bool | JNum int nat | JStr jsstring

abbreviation jc :: "char \<Rightarrow> jschar" where
  "jc c \<equiv> of_char c"

definition num_ok :: "int \<Rightarrow> nat \<Rightarrow> bool" where
  "num_ok m e \<longleftrightarrow> e = 0 \<or> m mod 10 \<noteq> 0"

fun val_ok :: "jsval \<Rightarrow> bool" where
  "val_ok (JNum m e) = num_ok m e"
| "val_ok v = True"

fun js_truthy :: "jsval \<Rightarrow> bool" where
  "js_truthy JNull = False"
| "js_truthy JUndefined = False"
| "js_truthy (JBool b) = b"
| "js_truthy (JNum m e) = (m \<noteq> 0)"
| "js_truthy (JStr s) = (s \<noteq> [])"


subsection \<open>Numbers as text\<close>

fun nat_digits :: "nat \<Rightarrow> nat list" where
  "nat_digits n = (if n = 0 then [] else nat_digits (n div 10) @ [n mod 10])"

fun strip_zeros :: "nat \<Rightarrow> nat \<times> nat" where
  "strip_zeros m =
    (if m = 0 \<or> m mod 10 \<noteq> 0 then (m, 0)
     else (fst (strip_zeros (m div 10)), Suc (snd (strip_zeros (m div 10)))))"

declare nat_digits.simps [simp del]
declare strip_zeros.simps [simp del]

definition digit_char :: "nat \<Rightarrow> jschar" where
  "digit_char d = of_nat (48 + d)"

definition digits_text :: "nat list \<Rightarrow> jsstring" where
  "digits_text ds = map digit_char ds"

definition nat_to_string :: "nat \<Rightarrow> jsstring" where
  "nat_to_string n = (if n = 0 then ascii ''0'' else digits_text (nat_digits n))"

definition sig_exp :: "nat \<Rightarrow> nat \<Rightarrow> nat \<times> int" where
  "sig_exp m e =
    (if e = 0 then (fst (strip_zeros m), int (snd (strip_zeros m))) else (m, - int e))"

definition exponent_text :: "int \<Rightarrow> jsstring" where
  "exponent_text x =
    ascii ''e'' @ (if x < 0 then ascii ''-'' else ascii ''+'') @ nat_to_string (nat \<bar>x\<bar>)"

definition pos_number_to_string :: "nat \<Rightarrow> nat \<Rightarrow> jsstring" where
  "pos_number_to_string m e =
    (let ds = nat_digits (fst (sig_exp m e));
         k = int (length ds);
         n = k + snd (sig_exp m e)
     in if k \<le> n \<and> n \<le> 21 then digits_text ds @ replicate (nat (n - k)) (jc CHR ''0'')
        else if 0 < n \<and> n \<le> 21 then
          digits_text (take (nat n) ds) @ ascii ''.'' @ digits_text (drop (nat n) ds)
        else if - 6 < n \<and> n \<le> 0 then
          ascii ''0.'' @ replicate (nat (- n)) (jc CHR ''0'') @ digits_text ds
        else if k = 1 then digits_text ds @ exponent_text (n - 1)
        else digits_text (take 1 ds) @ ascii ''.'' @ digits_text (drop 1 ds)
          @ exponent_text (n - 1))"

definition number_to_string :: "int \<Rightarrow> nat \<Rightarrow> jsstring" where
  "number_to_string m e =
    (if m = 0 then ascii ''0''
     else if m < 0 then ascii ''-'' @ pos_number_to_string (nat (- m)) e
     else pos_number_to_string (nat m) e)"

fun js_String :: "jsval \<Rightarrow> jsstring" where
  "js_String JNull = ascii ''null''"
| "js_String JUndefined = ascii ''undefined''"
| "js_String (JBool b) = (if b then ascii ''true'' else ascii ''false'')"
| "js_String (JNum m e) = number_to_string m e"
| "js_String (JStr s) = s"


subsection \<open>Replacing the first occurrence of a pattern\<close>

fun string_index_of :: "jsstring \<Rightarrow> jsstring \<Rightarrow> nat option" where
  "string_index_of [] p = (if p = [] then Some 0 else None)"
| "string_index_of (c # cs) p =
    (if take (length p) (c # cs) = p then Some 0
     else map_option Suc (string_index_of cs p))"

fun get_substitution :: "jsstring \<Rightarrow> jsstring \<Rightarrow> jsstring \<Rightarrow> jsstring \<Rightarrow> jsstring" where
  "get_substitution matched before after [] = []"
| "get_substitution matched before after [c] = [c]"
| "get_substitution matched before after (c # d # rest) =
    (if c = jc CHR ''$'' then
       if d = jc CHR ''$'' then jc CHR ''$'' # get_substitution matched before after rest
       else if d = jc CHR ''&'' then matched @ get_substitution matched before after rest
       else if d = jc CHR ''`'' then before @ get_substitution matched before after rest
       else if d = jc CHR 0x27 then after @ get_substitution matched before after rest
       else c # get_substitution matched before after (d # rest)
     else c # get_substitution matched before after (d # rest))"

definition js_replace :: "jsstring \<Rightarrow> jsstring \<Rightarrow> jsstring \<Rightarrow> jsstring" where
  "js_replace str pat rep =
    (case string_index_of str pat of
       None \<Rightarrow> str
     | Some pos \<Rightarrow>
         take pos str
           @ get_substitution pat (take pos str) (drop (pos + length pat) str) rep
           @ drop (pos + length pat) str)"

subsection \<open>Parsing an integer\<close>

definition white_space :: "jschar list" where
  "white_space =
    [0x0009, 0x000A, 0x000B, 0x000C, 0x000D, 0x0020, 0x00A0, 0x1680, 0x2000, 0x2001, 0x2002,
     0x2003, 0x2004, 0x2005, 0x2006, 0x2007, 0x2008, 0x2009, 0x200A, 0x2028, 0x2029, 0x202F,
     0x205F, 0x3000, 0xFEFF]"

definition is_digit :: "jschar \<Rightarrow> bool" where
  "is_digit c \<longleftrightarrow> 48 \<le> unat c \<and> unat c \<le> 57"

definition digits_value :: "jschar list \<Rightarrow> nat" where
  "digits_value ds = foldl (\<lambda>n c. 10 * n + (unat c - 48)) 0 ds"

definition parseInt10 :: "jsstring \<Rightarrow> int option" where
  "parseInt10 s =
    (let trimmed = dropWhile (\<lambda>c. c \<in> set white_space) s;
         negative = (trimmed \<noteq> [] \<and> hd trimmed = jc CHR ''-'');
         signed = (trimmed \<noteq> [] \<and> (hd trimmed = jc CHR ''-'' \<or> hd trimmed = jc CHR ''+''));
         ds = takeWhile is_digit (if signed then tl trimmed else trimmed)
     in if ds = [] then None
        else Some (if negative then - int (digits_value ds) else int (digits_value ds)))"

definition number_chars :: "jschar set" where
  "number_chars = jc ` set ''0123456789.-+e''"

lemmas [hist_defs] = num_ok_def digit_char_def digits_text_def nat_to_string_def sig_exp_def
  exponent_text_def pos_number_to_string_def number_to_string_def js_replace_def
  nat_digits.simps strip_zeros.simps white_space_def is_digit_def digits_value_def
  parseInt10_def


subsection \<open>Strict equality and truthiness\<close>

lemma js_truthy_not_absent: "js_truthy v \<Longrightarrow> v \<noteq> JNull \<and> v \<noteq> JUndefined"
  by (cases v) auto

lemma js_truthy_cases:
  "js_truthy v \<longleftrightarrow> (v = JBool True \<or> (\<exists>m e. v = JNum m e \<and> m \<noteq> 0) \<or> (\<exists>s. v = JStr s \<and> s \<noteq> []))"
  by (cases v) auto



subsection \<open>Digits\<close>

lemma nat_digits_0 [simp]: "nat_digits 0 = []"
  by (simp add: nat_digits.simps)

lemma nat_digits_pos: "0 < n \<Longrightarrow> nat_digits n = nat_digits (n div 10) @ [n mod 10]"
  by (subst nat_digits.simps) simp

lemma nat_digits_lt_10: "d \<in> set (nat_digits n) \<Longrightarrow> d < 10"
proof (induction n rule: nat_digits.induct)
  case (1 n)
  then show ?case
    by (cases "n = 0") (auto simp: nat_digits_pos)
qed

lemma digit_char_number_chars: "d < 10 \<Longrightarrow> digit_char d \<in> number_chars"
  by (auto simp: digit_char_def number_chars_def less_Suc_eq numeral_eq_Suc)

lemma digits_text_number_chars:
  "\<forall>d \<in> set ds. d < 10 \<Longrightarrow> set (digits_text ds) \<subseteq> number_chars"
  by (auto simp: digits_text_def digit_char_number_chars)

lemma nat_digits_text_chars [simp]: "set (digits_text (nat_digits n)) \<subseteq> number_chars"
  by (simp add: digits_text_number_chars nat_digits_lt_10)

lemma take_digits_text_chars [simp]:
  "set (digits_text (take k (nat_digits n))) \<subseteq> number_chars"
  by (rule digits_text_number_chars) (auto dest: in_set_takeD nat_digits_lt_10)

lemma drop_digits_text_chars [simp]:
  "set (digits_text (drop k (nat_digits n))) \<subseteq> number_chars"
  by (rule digits_text_number_chars) (auto dest: in_set_dropD nat_digits_lt_10)

lemma ascii_number_chars:
  "set s \<subseteq> set ''0123456789.-+e'' \<Longrightarrow> set (ascii s) \<subseteq> number_chars"
  by (auto simp: number_chars_def ascii_def)

lemma replicate_zero_chars [simp]: "set (replicate k (48 :: jschar)) \<subseteq> number_chars"
  by (auto simp: number_chars_def)

lemma nat_to_string_chars [simp]: "set (nat_to_string n) \<subseteq> number_chars"
  by (simp add: nat_to_string_def ascii_number_chars)

lemma exponent_text_chars [simp]: "set (exponent_text x) \<subseteq> number_chars"
  by (simp add: exponent_text_def ascii_number_chars)

lemma pos_number_to_string_chars [simp]: "set (pos_number_to_string m e) \<subseteq> number_chars"
  by (simp add: pos_number_to_string_def Let_def ascii_number_chars)

lemma set_number_to_string: "set (number_to_string m e) \<subseteq> number_chars"
  by (simp add: number_to_string_def ascii_number_chars)

lemma dollar_not_number_char: "jc CHR ''$'' \<notin> number_chars"
  by (simp add: number_chars_def)

lemma dollar_not_in_number_to_string: "jc CHR ''$'' \<notin> set (number_to_string m e)"
  using set_number_to_string [of m e] dollar_not_number_char by blast


subsection \<open>Integers as text and back\<close>

lemma strip_zeros_digits:
  "0 < m \<Longrightarrow> nat_digits m = nat_digits (fst (strip_zeros m)) @ replicate (snd (strip_zeros m)) 0"
proof (induction m rule: strip_zeros.induct)
  case (1 m)
  show ?case
  proof (cases "m mod 10 \<noteq> 0")
    case True
    then show ?thesis by (simp add: strip_zeros.simps)
  next
    case False
    with "1.prems" have pos: "0 < m div 10"
      by (simp add: div_greater_zero_iff) presburger
    from False "1.prems" have sz: "strip_zeros m
        = (fst (strip_zeros (m div 10)), Suc (snd (strip_zeros (m div 10))))"
      by (subst strip_zeros.simps) simp
    have "nat_digits m = nat_digits (m div 10) @ [0]"
      using "1.prems" False by (simp add: nat_digits_pos)
    also have "\<dots> = nat_digits (fst (strip_zeros (m div 10)))
        @ replicate (snd (strip_zeros (m div 10))) 0 @ [0]"
      using "1.IH" [OF _ pos] False "1.prems" by simp
    finally show ?thesis
      by (simp add: sz replicate_append_same)
  qed
qed

lemma digit_char_0: "digit_char 0 = jc CHR ''0''"
  by (simp add: digit_char_def)

lemma digits_text_append [simp]: "digits_text (xs @ ys) = digits_text xs @ digits_text ys"
  by (simp add: digits_text_def)

lemma digits_text_zeros: "digits_text (replicate k 0) = replicate k (jc CHR ''0'')"
  by (simp add: digits_text_def digit_char_0)

lemma length_digits_text [simp]: "length (digits_text ds) = length ds"
  by (simp add: digits_text_def)

lemma pos_number_to_string_nat:
  assumes "0 < n" "length (nat_digits n) \<le> 21"
  shows "pos_number_to_string n 0 = digits_text (nat_digits n)"
proof -
  let ?ds = "nat_digits (fst (strip_zeros n))" and ?z = "snd (strip_zeros n)"
  have split: "nat_digits n = ?ds @ replicate ?z 0"
    using assms(1) by (rule strip_zeros_digits)
  then have "length ?ds + ?z \<le> 21"
    using assms(2) by simp
  then have "pos_number_to_string n 0 = digits_text ?ds @ replicate ?z (jc CHR ''0'')"
    by (simp add: pos_number_to_string_def sig_exp_def Let_def)
  also have "\<dots> = digits_text (?ds @ replicate ?z 0)"
    by (simp add: digits_text_zeros)
  also have "\<dots> = digits_text (nat_digits n)"
    by (simp only: split [symmetric])
  finally show ?thesis .
qed

lemma number_to_string_int:
  assumes "length (nat_digits (nat \<bar>i\<bar>)) \<le> 21"
  shows "number_to_string i 0 =
    (if i = 0 then ascii ''0''
     else if i < 0 then ascii ''-'' @ digits_text (nat_digits (nat (- i)))
     else digits_text (nat_digits (nat i)))"
  using assms by (auto simp: number_to_string_def pos_number_to_string_nat abs_if)

lemma digits_value_snoc: "digits_value (ds @ [c]) = 10 * digits_value ds + (unat c - 48)"
  by (simp add: digits_value_def)

lemma unat_digit_char: "d < 10 \<Longrightarrow> unat (digit_char d) = 48 + d"
  unfolding digit_char_def by (subst unat_of_nat) simp

lemma digits_value_nat_digits: "digits_value (digits_text (nat_digits n)) = n"
proof (induction n rule: nat_digits.induct)
  case (1 n)
  show ?case
  proof (cases "n = 0")
    case True
    then show ?thesis by (simp add: digits_value_def digits_text_def)
  next
    case False
    then have "digits_value (digits_text (nat_digits n))
        = 10 * digits_value (digits_text (nat_digits (n div 10))) + (unat (digit_char (n mod 10)) - 48)"
      by (simp add: nat_digits_pos digits_value_snoc digits_text_def)
    with False "1.IH" show ?thesis
      by (simp add: unat_digit_char)
  qed
qed

lemma is_digit_digit_char: "d < 10 \<Longrightarrow> is_digit (digit_char d)"
  by (simp add: is_digit_def unat_digit_char)

lemma is_digit_nat_digits: "list_all is_digit (digits_text (nat_digits n))"
  by (auto simp: list_all_iff digits_text_def is_digit_digit_char dest: nat_digits_lt_10)

lemma is_digit_plain:
  "is_digit c \<Longrightarrow> c \<notin> set white_space \<and> c \<noteq> jc CHR ''-'' \<and> c \<noteq> jc CHR ''+''"
  by (auto simp: is_digit_def white_space_def)

lemma minus_not_white_space: "jc CHR ''-'' \<notin> set white_space"
  by (simp add: white_space_def)

lemma takeWhile_all: "list_all P xs \<Longrightarrow> takeWhile P xs = xs"
  by (simp add: list_all_iff)

lemma digits_text_eq_Nil_iff [simp]: "digits_text ds = [] \<longleftrightarrow> ds = []"
  by (simp add: digits_text_def)

lemma nat_digits_eq_Nil_iff [simp]: "nat_digits n = [] \<longleftrightarrow> n = 0"
  by (cases "n = 0") (simp_all add: nat_digits_pos)

lemma parseInt10_digits:
  assumes "ds \<noteq> []" "list_all is_digit ds"
  shows "parseInt10 ds = Some (int (digits_value ds))"
    and "parseInt10 (jc CHR ''-'' # ds) = Some (- int (digits_value ds))"
proof -
  from assms obtain c cs where ds: "ds = c # cs" "is_digit c"
    by (cases ds) auto
  then have c: "c \<notin> set white_space" "c \<noteq> jc CHR ''-''" "c \<noteq> jc CHR ''+''"
    using is_digit_plain [of c] by simp_all
  show "parseInt10 ds = Some (int (digits_value ds))"
    using assms c ds by (simp add: parseInt10_def Let_def takeWhile_all)
  show "parseInt10 (jc CHR ''-'' # ds) = Some (- int (digits_value ds))"
    using assms(1) minus_not_white_space
    by (simp add: parseInt10_def Let_def takeWhile_all [OF assms(2)])
qed

lemma parseInt10_number_to_string:
  assumes "length (nat_digits (nat \<bar>i\<bar>)) \<le> 21"
  shows "parseInt10 (number_to_string i 0) = Some i"
proof -
  consider "i = 0" | "i < 0" | "0 < i" by linarith
  then show ?thesis
  proof cases
    case 1
    then show ?thesis
      by (simp add: number_to_string_def parseInt10_def white_space_def is_digit_def
          digits_value_def ascii_def Let_def)
  next
    case 2
    then have "parseInt10 (jc CHR ''-'' # digits_text (nat_digits (nat (- i)))) = Some i"
      using parseInt10_digits(2) [OF _ is_digit_nat_digits, of "nat (- i)"]
      by (simp add: digits_value_nat_digits)
    with 2 assms show ?thesis
      by (simp add: number_to_string_int ascii_def)
  next
    case 3
    then have "parseInt10 (digits_text (nat_digits (nat i))) = Some i"
      using parseInt10_digits(1) [OF _ is_digit_nat_digits, of "nat i"]
      by (simp add: digits_value_nat_digits)
    with 3 assms show ?thesis
      by (simp add: number_to_string_int)
  qed
qed

lemma number_to_string_inj:
  assumes "length (nat_digits (nat \<bar>i\<bar>)) \<le> 21" "length (nat_digits (nat \<bar>j\<bar>)) \<le> 21"
    and "number_to_string i 0 = number_to_string j 0"
  shows "i = j"
proof -
  have "Some i = parseInt10 (number_to_string i 0)"
    by (simp only: parseInt10_number_to_string [OF assms(1)])
  also have "\<dots> = parseInt10 (number_to_string j 0)"
    by (simp only: assms(3))
  also have "\<dots> = Some j"
    by (rule parseInt10_number_to_string [OF assms(2)])
  finally show ?thesis by (simp only: option.inject)
qed



lemma digits_value_bound: "list_all is_digit ds \<Longrightarrow> digits_value ds < 10 ^ length ds"
proof (induction ds rule: rev_induct)
  case Nil
  show ?case by (simp add: digits_value_def)
next
  case (snoc c ds)
  then have "digits_value ds < 10 ^ length ds" "unat c - 48 \<le> 9"
    by (auto simp: is_digit_def)
  then show ?case
    by (simp add: digits_value_snoc)
qed


subsection \<open>Search and replacement\<close>

lemma get_substitution_plain:
  "jc CHR ''$'' \<notin> set rep \<Longrightarrow> get_substitution m b a rep = rep"
  by (induction m b a rep rule: get_substitution.induct) auto

lemma get_substitution_plain_prefix:
  "jc CHR ''$'' \<notin> set x \<Longrightarrow> get_substitution m b a (x @ y) = x @ get_substitution m b a y"
proof (induction x)
  case Nil
  show ?case by simp
next
  case (Cons c x)
  then show ?case by (cases "x @ y") auto
qed

lemma string_index_of_Some_iff:
  "string_index_of s p = Some i \<longleftrightarrow>
    i + length p \<le> length s \<and> take (length p) (drop i s) = p
    \<and> (\<forall>j < i. take (length p) (drop j s) \<noteq> p)"
proof (induction s arbitrary: i)
  case Nil
  show ?case by auto
next
  case (Cons c cs)
  show ?case
  proof (cases "take (length p) (c # cs) = p")
    case True
    then have "length (take (length p) (c # cs)) = length p"
      by simp
    then have "length p \<le> length (c # cs)"
      by (simp only: length_take min_def split: if_splits)
    with True show ?thesis by auto
  next
    case False
    show ?thesis
    proof (cases i)
      case 0
      with False show ?thesis by simp
    next
      case (Suc k)
      have "(\<forall>j < Suc k. take (length p) (drop j (c # cs)) \<noteq> p)
        \<longleftrightarrow> (\<forall>j < k. take (length p) (drop j cs) \<noteq> p)"
        using False by (auto simp: less_Suc_eq_0_disj)
      with False Suc Cons.IH [of k] show ?thesis by auto
    qed
  qed
qed

lemma js_replace_no_pattern:
  "jc CHR ''$'' \<notin> set rep \<Longrightarrow>
    js_replace str pat rep =
      (case string_index_of str pat of
         None \<Rightarrow> str
       | Some pos \<Rightarrow> take pos str @ rep @ drop (pos + length pat) str)"
  by (simp add: js_replace_def get_substitution_plain split: option.splits)


subsection \<open>Properties of the built-ins\<close>

text \<open>
  The search that \<open>replace\<close> performs finds the first occurrence of the pattern: it
  returns position \<open>i\<close> exactly when the pattern stands at \<open>i\<close> within the string and at
  no earlier position.
\<close>
theorem string_index_of_first_occurrence:
  "string_index_of s p = Some i \<longleftrightarrow>
    i + length p \<le> length s \<and> take (length p) (drop i s) = p
    \<and> (\<forall>j < i. take (length p) (drop j s) \<noteq> p)"
  by (rule string_index_of_Some_iff)

theorem string_index_of_first_occurrence_witness:
  "string_index_of (ascii ''a{val}{val}'') (ascii ''{val}'') = Some 1"
  using string_index_of_first_occurrence [of "ascii ''a{val}{val}''" "ascii ''{val}''" 1]
  by (simp add: ascii_def)

text \<open>
  With a replacement text that holds no \<open>$\<close>, \<open>replace\<close> substitutes the text as it
  is for the first occurrence of the pattern and leaves the rest of the string, later
  occurrences included, untouched; a string without the pattern is returned unchanged.
\<close>
theorem js_replace_plain:
  assumes "jc CHR ''$'' \<notin> set rep"
  shows "js_replace str pat rep =
    (case string_index_of str pat of
       None \<Rightarrow> str
     | Some pos \<Rightarrow> take pos str @ rep @ drop (pos + length pat) str)"
  using assms by (rule js_replace_no_pattern)

theorem js_replace_plain_witness:
  "jc CHR ''$'' \<notin> set (ascii ''42'')
   \<and> js_replace (ascii ''/c/{val}/{val}'') (ascii ''{val}'') (ascii ''42'') = ascii ''/c/42/{val}''"
  using js_replace_plain [of "ascii ''42''" "ascii ''/c/{val}/{val}''" "ascii ''{val}''"]
  by (simp add: ascii_def)

text \<open>
  The text of a number consists of decimal digits, the decimal point, the signs and
  the exponent letter only; in particular it holds no character that is special in HTML
  or in a replacement pattern.
\<close>
theorem number_to_string_chars: "set (number_to_string m e) \<subseteq> number_chars"
  by (rule set_number_to_string)

end
