(* ===== verification/Types.thy ===== *)
theory Types
  imports JSValue
begin

text \<open>
  The data of \<open>src/types.ts\<close>.

  \<^item> \<open>OSMElement\<close> is one version of an element as the OSM API returns it. A field the
    interface marks optional (\<open>visible?\<close>, \<open>tags?\<close>, \<open>lat?\<close>, \<open>lon?\<close>, \<open>nodes?\<close>,
    \<open>members?\<close>) has an \<open>option\<close> type, \<open>None\<close> for a missing property. The fields \<open>type\<close>
    and \<open>id\<close> are written \<open>type_el\<close> and \<open>id_el\<close>, the member's \<open>type\<close> is \<open>type_m\<close>.
    Integer-valued fields are \<open>int\<close>; a coordinate is a decimal \<open>(m, e)\<close> for \<open>m / 10 ^ e\<close>.
    The tags object is the list of its properties in the order \<open>Object.keys\<close> enumerates
    them, with \<open>tags_ok\<close> saying that no key occurs twice.
  \<^item> \<open>CellInfo\<close> is one table cell. Its \<open>clz\<close> is one of five literals, here the
    datatype \<open>clz\<close> with \<open>clz_name\<close> giving the literal.
  \<^item> The four line types are pairs of a label and a row of cells.
\<close>

record OSMMember =
  type_m :: jsstring
  ref :: int
  role :: jsstring

record OSMElement =
  type_el :: jsstring
  id_el :: int
  timestamp :: jsstring
  version :: int
  changeset :: int
  user :: jsstring
  uid :: int
  visible :: "bool option"
  tags :: "(jsstring \<times> jsstring) list option"
  lat :: "(int \<times> nat) option"
  lon :: "(int \<times> nat) option"
  nodes :: "int list option"
  members :: "OSMMember list option"

datatype clz = NotPresent | New | Removed | Changed | Unchanged

record CellInfo =
  clz :: clz
  val :: jsval
  url :: "jsstring option"

type_synonym PropLine = "jsstring \<times> CellInfo list"
type_synonym TagLine = "jsstring \<times> CellInfo list"
type_synonym NodeLine = "int \<times> CellInfo list"
type_synonym MemberLine = "OSMMember \<times> CellInfo list"

fun clz_name :: "clz \<Rightarrow> jsstring" where
  "clz_name NotPresent = ascii ''notpresent''"
| "clz_name New = ascii ''new''"
| "clz_name Removed = ascii ''removed''"
| "clz_name Changed = ascii ''changed''"
| "clz_name Unchanged = ascii ''unchanged''"

definition tags_ok :: "OSMElement \<Rightarrow> bool" where
  "tags_ok v \<longleftrightarrow> (case tags v of None \<Rightarrow> True | Some kvs \<Rightarrow> distinct (map fst kvs))"

definition coords_ok :: "OSMElement \<Rightarrow> bool" where
  "coords_ok v \<longleftrightarrow>
    (case lat v of None \<Rightarrow> True | Some (m, e) \<Rightarrow> num_ok m e) \<and>
    (case lon v of None \<Rightarrow> True | Some (m, e) \<Rightarrow> num_ok m e)"

definition cell_ok :: "CellInfo \<Rightarrow> bool" where
  "cell_ok c \<longleftrightarrow> val c \<noteq> JNull \<and> val c \<noteq> JUndefined"

lemmas [hist_defs] = tags_ok_def coords_ok_def cell_ok_def

lemma clz_name_inj: "clz_name a = clz_name b \<longleftrightarrow> a = b"
  by (cases a; cases b) (simp_all add: ascii_def)

lemma clz_name_nonempty: "clz_name a \<noteq> []"
  by (cases a) simp_all

end
