(* ===== verification/Api.thy ===== *)
theory Api
  imports Types
begin

text \<open>
  The diff engine of \<open>src/api.ts\<close>.

  \<^item> \<open>computeAllTagKeys\<close>: the two nested loops over the versions and over
    \<open>Object.keys(v.tags || {})\<close>, with \<open>push_new\<close> the guarded \<open>push\<close> of their body.
  \<^item> \<open>pairwise\<close>: the generator, as the list of the pairs it yields; \<open>None\<close> is the
    leading \<open>null\<close>.
  \<^item> \<open>changeRow\<close>: one cell per pair, built by \<open>changeCell\<close> from \<open>classify\<close> (the
    \<open>if\<close> chain over \<open>=== null\<close>), \<open>cell_val\<close> and \<open>cell_url\<close>. The optional
    \<open>urlTemplate\<close> is an \<open>option\<close>.
  \<^item> \<open>diff_from\<close> and \<open>spec_classify\<close> are the specification: a single pass that carries
    the previous value, and the five-row table over absent and present values.

  The lemmas give the length and the cells of a row, the table of \<open>classify\<close>, the
  refinement of \<open>diff_from\<close> by \<open>changeRow\<close>, and the first-seen order of the keys.
\<close>

definition object_keys :: "(jsstring \<times> 'b) list \<Rightarrow> jsstring list" where
  "object_keys obj = map fst obj"

definition tags_or_empty :: "OSMElement \<Rightarrow> (jsstring \<times> jsstring) list" where
  "tags_or_empty v = (case tags v of None \<Rightarrow> [] | Some kvs \<Rightarrow> kvs)"

definition push_new :: "'a list \<Rightarrow> 'a \<Rightarrow> 'a list" where
  "push_new allKeys t = (if t \<notin> set allKeys then allKeys @ [t] else allKeys)"

definition computeAllTagKeys :: "OSMElement list \<Rightarrow> jsstring list" where
  "computeAllTagKeys versions =
    foldl (\<lambda>allKeys v. foldl push_new allKeys (object_keys (tags_or_empty v))) [] versions"

function pairwise_from :: "'a option list \<Rightarrow> nat \<Rightarrow> ('a option \<times> 'a) list" where
  "pairwise_from arr i =
    (if i < length arr - 1
     then (arr ! i, the (arr ! (i + 1))) # pairwise_from arr (i + 1)
     else [])"
  by pat_completeness auto

termination pairwise_from
  by (relation "measure (\<lambda>(arr, i). length arr - 1 - i)") auto

declare pairwise_from.simps [simp del]

definition pairwise :: "'a list \<Rightarrow> ('a option \<times> 'a) list" where
  "pairwise iterable =
    (let arr = None # map Some iterable
     in pairwise_from arr 0)"

definition classify :: "jsval \<Rightarrow> jsval \<Rightarrow> clz" where
  "classify prevVal curVal =
    (if prevVal = JNull \<and> curVal = JNull then NotPresent
     else if prevVal = JNull \<and> curVal \<noteq> JNull then New
     else if prevVal \<noteq> JNull \<and> curVal = JNull then Removed
     else if prevVal \<noteq> curVal then Changed
     else Unchanged)"

definition cell_val :: "jsval \<Rightarrow> jsval" where
  "cell_val curVal = (if curVal \<noteq> JNull \<and> curVal \<noteq> JUndefined then curVal else JStr [])"

definition cell_url :: "jsstring option \<Rightarrow> jsval \<Rightarrow> jsstring option" where
  "cell_url urlTemplate curVal =
    (case urlTemplate of
       None \<Rightarrow> None
     | Some t \<Rightarrow>
         if t \<noteq> [] \<and> js_truthy curVal
         then Some (js_replace t (ascii ''{val}'') (js_String curVal))
         else None)"

definition prev_val :: "('v \<Rightarrow> jsval) \<Rightarrow> 'v option \<Rightarrow> jsval" where
  "prev_val attrGetter prevVer = (case prevVer of None \<Rightarrow> JNull | Some p \<Rightarrow> attrGetter p)"

definition changeCell :: "('v \<Rightarrow> jsval) \<Rightarrow> jsstring option \<Rightarrow> 'v option \<times> 'v \<Rightarrow> CellInfo" where
  "changeCell attrGetter urlTemplate pc =
    (let prevVal = prev_val attrGetter (fst pc);
         curVal = attrGetter (snd pc)
     in \<lparr>clz = classify prevVal curVal, val = cell_val curVal,
         url = cell_url urlTemplate curVal\<rparr>)"

definition changeRow :: "'v list \<Rightarrow> ('v \<Rightarrow> jsval) \<Rightarrow> jsstring option \<Rightarrow> CellInfo list" where
  "changeRow versions attrGetter urlTemplate =
    foldl (\<lambda>row pc. row @ [changeCell attrGetter urlTemplate pc]) [] (pairwise versions)"

fun diff_from :: "jsval \<Rightarrow> jsval list \<Rightarrow> clz list" where
  "diff_from prev [] = []"
| "diff_from prev (cur # rest) = classify prev cur # diff_from cur rest"

fun spec_classify :: "'a option \<Rightarrow> 'a option \<Rightarrow> clz" where
  "spec_classify None None = NotPresent"
| "spec_classify None (Some v) = New"
| "spec_classify (Some v) None = Removed"
| "spec_classify (Some v1) (Some v2) = (if v1 = v2 then Unchanged else Changed)"

definition absent_null :: "jsval option \<Rightarrow> jsval" where
  "absent_null a = (case a of None \<Rightarrow> JNull | Some v \<Rightarrow> v)"

definition absent_undefined :: "jsval option \<Rightarrow> jsval" where
  "absent_undefined a = (case a of None \<Rightarrow> JUndefined | Some v \<Rightarrow> v)"

fun spec_row_from :: "'a option \<Rightarrow> 'a option list \<Rightarrow> clz list" where
  "spec_row_from prev [] = []"
| "spec_row_from prev (cur # rest) = spec_classify prev cur # spec_row_from cur rest"

definition spec_row :: "'a option list \<Rightarrow> clz list" where
  "spec_row xs = spec_row_from None xs"

lemmas [hist_defs] = spec_row_def object_keys_def tags_or_empty_def push_new_def computeAllTagKeys_def
  pairwise_from.simps pairwise_def classify_def cell_val_def cell_url_def prev_val_def changeCell_def
  changeRow_def absent_null_def absent_undefined_def


subsection \<open>The generator\<close>

lemma pairwise_from_upt:
  "pairwise_from arr i = map (\<lambda>j. (arr ! j, the (arr ! (j + 1)))) [i..<length arr - 1]"
proof (induction arr i rule: pairwise_from.induct)
  case (1 arr i)
  then show ?case
    by (subst pairwise_from.simps) (simp add: upt_conv_Cons)
qed

lemma pairwise_zip: "pairwise xs = zip (None # map Some xs) xs"
proof (rule nth_equalityI)
  show "length (pairwise xs) = length (zip (None # map Some xs) xs)"
    by (simp add: pairwise_def pairwise_from_upt)
next
  fix i
  assume "i < length (pairwise xs)"
  then have "i < length xs"
    by (simp add: pairwise_def pairwise_from_upt)
  then show "pairwise xs ! i = zip (None # map Some xs) xs ! i"
    by (simp add: pairwise_def pairwise_from_upt Let_def del: upt_Suc)
qed

lemma pairwise_Nil [simp]: "pairwise [] = []"
  by (simp add: pairwise_zip)

lemma pairwise_Cons: "pairwise (x # xs) = (None, x) # zip (map Some (x # xs)) xs"
  by (simp add: pairwise_zip)

lemma length_pairwise [simp]: "length (pairwise xs) = length xs"
  by (simp add: pairwise_zip)

lemma pairwise_snoc:
  "pairwise (xs @ [x]) = pairwise xs @ [(if xs = [] then None else Some (last xs), x)]"
  by (simp add: pairwise_zip zip_shift_snoc)

lemma pairwise_nth:
  "i < length xs \<Longrightarrow> pairwise xs ! i = (if i = 0 then None else Some (xs ! (i - 1)), xs ! i)"
  by (cases i) (simp_all add: pairwise_zip)


subsection \<open>Rows\<close>

lemma foldl_snoc_map: "foldl (\<lambda>row x. row @ [f x]) acc xs = acc @ map f xs"
  by (induction xs arbitrary: acc) simp_all

lemma changeRow_map:
  "changeRow versions attrGetter urlTemplate =
    map (changeCell attrGetter urlTemplate) (pairwise versions)"
  by (simp add: changeRow_def foldl_snoc_map)

lemma changeRow_Nil [simp]: "changeRow [] g t = []"
  by (simp add: changeRow_map)

lemma changeRow_snoc:
  "changeRow (vs @ [v]) g t
    = changeRow vs g t @ [changeCell g t (if vs = [] then None else Some (last vs), v)]"
  by (simp add: changeRow_map pairwise_snoc)

lemma clz_changeCell [simp]:
  "clz (changeCell g t pc) = classify (prev_val g (fst pc)) (g (snd pc))"
  by (simp add: changeCell_def Let_def)

lemma val_changeCell [simp]: "val (changeCell g t pc) = cell_val (g (snd pc))"
  by (simp add: changeCell_def Let_def)

lemma url_changeCell [simp]: "url (changeCell g t pc) = cell_url t (g (snd pc))"
  by (simp add: changeCell_def Let_def)

lemma changeCell_map_version:
  "changeCell g t (map_option f q, f v) = changeCell (\<lambda>x. g (f x)) t (q, v)"
  by (cases q) (simp_all add: changeCell_def prev_val_def)

lemma map_changeCell_zip_map:
  "map (changeCell g t) (zip (map_option f q # map Some (map f vs)) (map f vs))
    = map (changeCell (\<lambda>x. g (f x)) t) (zip (q # map Some vs) vs)"
proof (induction vs arbitrary: q)
  case Nil
  show ?case by simp
next
  case (Cons v vs)
  show ?case
    using Cons.IH [of "Some v"] by (simp add: changeCell_map_version)
qed

lemma changeRow_map_versions:
  "changeRow (map f vs) g t = changeRow vs (\<lambda>x. g (f x)) t"
  using map_changeCell_zip_map [of g t f None vs] by (simp add: changeRow_map pairwise_zip)

lemma diff_from_append:
  "diff_from p (xs @ [x]) = diff_from p xs @ [classify (if xs = [] then p else last xs) x]"
  by (induction xs arbitrary: p) simp_all

lemma cell_ok_changeCell: "cell_ok (changeCell g t pc)"
  by (simp add: cell_ok_def cell_val_def)


subsection \<open>Keys\<close>

lemma foldl_push_new:
  "foldl push_new (first_seen ys) xs = first_seen (ys @ xs)"
proof (induction xs rule: rev_induct)
  case Nil
  show ?case by simp
next
  case (snoc x xs)
  have "first_seen (ys @ xs @ [x]) = first_seen ((ys @ xs) @ [x])"
    by simp
  then show ?case
    using snoc.IH by (simp add: push_new_def first_seen_snoc del: append_assoc)
qed

lemma foldl_collect_first_seen:
  "foldl (\<lambda>acc v. foldl push_new acc (f v)) (first_seen ys) vs
    = first_seen (ys @ concat (map f vs))"
proof (induction vs arbitrary: ys)
  case Nil
  show ?case by simp
next
  case (Cons v vs)
  show ?case
    using Cons.IH [of "ys @ f v"] by (simp add: foldl_push_new)
qed

lemma collect_first_seen:
  "foldl (\<lambda>acc v. foldl push_new acc (f v)) [] vs = first_seen (concat (map f vs))"
  using foldl_collect_first_seen [of f "[]" vs] by simp

lemma computeAllTagKeys_eq:
  "computeAllTagKeys vs = first_seen (concat (map (\<lambda>v. object_keys (tags_or_empty v)) vs))"
  by (simp add: computeAllTagKeys_def collect_first_seen)


subsection \<open>Classes of a row\<close>

lemma map_classify_zip:
  "map (\<lambda>pc. classify (prev_val g (fst pc)) (g (snd pc))) (zip (q # map Some vs) vs)
    = diff_from (prev_val g q) (map g vs)"
  by (induction vs arbitrary: q) (simp_all add: prev_val_def)

lemma changeRow_clz_diff_from: "map clz (changeRow vs g t) = diff_from JNull (map g vs)"
  using map_classify_zip [of g None vs]
  by (simp add: changeRow_map pairwise_zip prev_val_def comp_def)

lemma classify_absent_null:
  "a \<noteq> Some JNull \<Longrightarrow> b \<noteq> Some JNull \<Longrightarrow>
    classify (absent_null a) (absent_null b) = spec_classify a b"
  by (cases a; cases b) (auto simp: classify_def absent_null_def)

lemma diff_from_spec_row_from:
  "a \<noteq> Some JNull \<Longrightarrow> \<forall>v \<in> set vs. h v \<noteq> Some JNull \<Longrightarrow>
    diff_from (absent_null a) (map (\<lambda>v. absent_null (h v)) vs) = spec_row_from a (map h vs)"
  by (induction vs arbitrary: a) (simp_all add: classify_absent_null)

lemma classify_never_null:
  "cur \<noteq> JNull \<Longrightarrow>
    classify prev cur = (if prev = JNull then New else if prev = cur then Unchanged else Changed)"
  by (simp add: classify_def)

lemma diff_from_never_null:
  "\<forall>x \<in> set xs. x \<noteq> JNull \<Longrightarrow> p \<noteq> JNull \<Longrightarrow>
    set (diff_from p xs) \<subseteq> {Changed, Unchanged}"
  by (induction xs arbitrary: p) (auto simp: classify_never_null)

lemma diff_from_never_null_zip:
  "\<forall>v \<in> set (v0 # vs). g v \<noteq> JNull \<Longrightarrow>
    diff_from (g v0) (map g vs)
      = map (\<lambda>(p, c). if g p = g c then Unchanged else Changed) (zip (v0 # vs) vs)"
  by (induction vs arbitrary: v0) (simp_all add: classify_never_null)

lemma spec_classify_map_inj:
  "inj f \<Longrightarrow> spec_classify (map_option f a) (map_option f b) = spec_classify a b"
  by (cases a; cases b) (simp_all add: inj_eq)

lemma spec_row_from_map_inj:
  "inj f \<Longrightarrow> spec_row_from (map_option f a) (map (map_option f) xs) = spec_row_from a xs"
  by (induction xs arbitrary: a) (simp_all add: spec_classify_map_inj)

lemma spec_row_map_inj: "inj f \<Longrightarrow> spec_row (map (map_option f) xs) = spec_row xs"
  using spec_row_from_map_inj [of f None xs] by (simp add: spec_row_def)

lemma changeRow_clz_spec_row:
  assumes "\<forall>v \<in> set vs. h v \<noteq> Some JNull"
  shows "map clz (changeRow vs (\<lambda>v. absent_null (h v)) t) = spec_row (map h vs)"
proof -
  have "map clz (changeRow vs (\<lambda>v. absent_null (h v)) t)
      = diff_from (absent_null None) (map (\<lambda>v. absent_null (h v)) vs)"
    by (simp add: changeRow_clz_diff_from absent_null_def)
  also have "\<dots> = spec_row_from None (map h vs)"
    using assms by (intro diff_from_spec_row_from) simp_all
  finally show ?thesis by (simp add: spec_row_def)
qed

lemma changeRow_clz_never_null:
  assumes "\<forall>v \<in> set vs. g v \<noteq> JNull" and "vs \<noteq> []"
  shows "map clz (changeRow vs g t)
    = New # map (\<lambda>(p, c). if g p = g c then Unchanged else Changed) (zip vs (tl vs))"
proof -
  from assms(2) obtain v0 ws where "vs = v0 # ws"
    by (cases vs) auto
  with assms(1) show ?thesis
    using diff_from_never_null_zip [of v0 ws g]
    by (simp add: changeRow_clz_diff_from classify_never_null)
qed

lemma cell_url_eq_None_iff:
  "cell_url t v = None \<longleftrightarrow> t = None \<or> t = Some [] \<or> \<not> js_truthy v"
  by (auto simp: cell_url_def split: option.splits)

lemma sorted_wrt_computeAllTagKeys:
  "sorted_wrt
    (\<lambda>a b. first_index (concat (map (\<lambda>v. object_keys (tags_or_empty v)) vs)) a
      < first_index (concat (map (\<lambda>v. object_keys (tags_or_empty v)) vs)) b)
    (computeAllTagKeys vs)"
  by (simp only: computeAllTagKeys_eq sorted_wrt_first_seen)

lemma set_computeAllTagKeys:
  "set (computeAllTagKeys vs) = (\<Union>v \<in> set vs. set (object_keys (tags_or_empty v)))"
  by (simp add: computeAllTagKeys_eq)

lemma distinct_computeAllTagKeys [simp]: "distinct (computeAllTagKeys vs)"
  by (simp add: computeAllTagKeys_eq)


subsection \<open>Properties of the diff engine\<close>

text \<open>
  C1. Refinement of the specification's classifier. For an accessor that encodes an absent
  attribute as \<open>null\<close> (and never returns \<open>null\<close> for a present one), the classes of the
  row that \<open>changeRow\<close> builds are exactly the single pass of the five-row table of the
  specification over the optional values, started with an absent predecessor.
\<close>
theorem changeRow_refines_spec_row:
  assumes "\<forall>v \<in> set vs. h v \<noteq> Some JNull"
  shows "map clz (changeRow vs (\<lambda>v. absent_null (h v)) t) = spec_row (map h vs)"
  using assms by (rule changeRow_clz_spec_row)

theorem changeRow_refines_spec_row_witness:
  "list_all (\<lambda>v. v \<noteq> Some JNull)
      [None, Some (JNum 0 0), Some (JNum 0 0), Some (JNum 1 0), None]
   \<and> map clz (changeRow [None, Some (JNum 0 0), Some (JNum 0 0), Some (JNum 1 0), None]
        (\<lambda>v. absent_null v) None)
     = [NotPresent, New, Unchanged, Changed, Removed]"
  using changeRow_refines_spec_row
    [of "[None, Some (JNum 0 0), Some (JNum 0 0), Some (JNum 1 0), None]" "\<lambda>v. v" None]
  by (simp add: spec_row_def)

text \<open>
  C2. Every row has exactly one cell per version, whatever the accessor and the link
  template are.
\<close>
theorem changeRow_length: "length (changeRow versions attrGetter urlTemplate) = length versions"
  by (simp add: changeRow_map)

text \<open>
  C3. The \<open>if\<close> chain of \<open>changeRow\<close> implements the specification's table: with
  \<open>null\<close> standing for an absent value and any other value for a present one, two absent
  values give \<open>notpresent\<close>, absent then present \<open>new\<close>, present then absent \<open>removed\<close>,
  and two present values \<open>unchanged\<close> exactly when they are strictly equal, \<open>changed\<close>
  otherwise.
\<close>
theorem classify_spec_table:
  assumes "v1 \<noteq> JNull" and "v2 \<noteq> JNull"
  shows "classify JNull JNull = NotPresent \<and> classify JNull v2 = New
    \<and> classify v1 JNull = Removed
    \<and> (classify v1 v2 = Unchanged \<longleftrightarrow> v1 = v2)
    \<and> (classify v1 v2 = Changed \<longleftrightarrow> v1 \<noteq> v2)"
  using assms by (simp add: classify_def)

theorem classify_spec_table_witness:
  "JStr (ascii ''cafe'') \<noteq> JNull \<and> JStr (ascii ''bar'') \<noteq> JNull
   \<and> classify JNull (JStr (ascii ''bar'')) = New
   \<and> classify (JStr (ascii ''cafe'')) JNull = Removed
   \<and> classify (JStr (ascii ''cafe'')) (JStr (ascii ''bar'')) = Changed"
  using classify_spec_table [of "JStr (ascii ''cafe'')" "JStr (ascii ''bar'')"]
  by simp

text \<open>
  C4. \<open>computeAllTagKeys\<close> returns the tag names of all versions in the order in which
  each name is first seen when the versions are scanned from the oldest to the newest and
  the keys of one version in their enumeration order: the nested loops equal the
  first-occurrence filter of the concatenated key lists.
\<close>
theorem computeAllTagKeys_first_seen:
  "computeAllTagKeys versions
    = first_seen (concat (map (\<lambda>v. object_keys (tags_or_empty v)) versions))"
  by (rule computeAllTagKeys_eq)

text \<open>
  C9. Cell \<open>i\<close> of a row is determined by versions \<open>i - 1\<close> and \<open>i\<close> alone: it is the
  cell built from the pair of the previous version (none for the first column) and the
  current one.
\<close>
theorem changeRow_cell:
  assumes "i < length versions"
  shows "changeRow versions attrGetter urlTemplate ! i
    = changeCell attrGetter urlTemplate
        (if i = 0 then None else Some (versions ! (i - 1)), versions ! i)"
  using assms by (simp add: changeRow_map pairwise_nth)

theorem changeRow_cell_witness:
  "(1::nat) < length [JNum 7 0, JNum 8 0]
   \<and> changeRow [JNum 7 0, JNum 8 0] (\<lambda>v. v) None ! 1
     = \<lparr>clz = Changed, val = JNum 8 0, url = None\<rparr>"
  using changeRow_cell [of 1 "[JNum 7 0, JNum 8 0]" "\<lambda>v. v" None]
  by (simp add: changeCell_def classify_def cell_val_def cell_url_def prev_val_def)

text \<open>
  C8. An accessor that never returns \<open>null\<close> (one that reads a missing property as
  \<open>undefined\<close>, or returns a boolean) gets \<open>new\<close> in the first column and only
  \<open>unchanged\<close> or \<open>changed\<close> afterwards, by strict equality of the two neighbouring
  values: such a row never holds \<open>notpresent\<close> or \<open>removed\<close>.
\<close>
theorem changeRow_never_null:
  assumes "\<forall>v \<in> set versions. attrGetter v \<noteq> JNull" and "versions \<noteq> []"
  shows "map clz (changeRow versions attrGetter urlTemplate)
    = New # map (\<lambda>(p, c). if attrGetter p = attrGetter c then Unchanged else Changed)
        (zip versions (tl versions))"
  using assms by (rule changeRow_clz_never_null)

theorem changeRow_never_null_witness:
  "list_all (\<lambda>v. v \<noteq> JNull) [JUndefined, JStr (ascii ''cafe''), JStr (ascii ''cafe''), JUndefined]
   \<and> map clz (changeRow [JUndefined, JStr (ascii ''cafe''), JStr (ascii ''cafe''), JUndefined]
        (\<lambda>v. v) None)
     = [New, Changed, Unchanged, Changed]"
  using changeRow_never_null
    [of "[JUndefined, JStr (ascii ''cafe''), JStr (ascii ''cafe''), JUndefined]" "\<lambda>v. v" None]
  by simp

text \<open>
  C19. The display value of a cell is never \<open>null\<close> or \<open>undefined\<close>: an absent current
  value is shown as the empty string.
\<close>
theorem changeRow_cells_ok: "list_all cell_ok (changeRow versions attrGetter urlTemplate)"
  by (simp add: changeRow_map list_all_iff cell_ok_changeCell)

text \<open>
  C35. The generator yields one pair per element, each element paired with its predecessor
  and the first one with \<open>null\<close>; the index loop over the array extended by a leading
  \<open>null\<close> never reads outside it.
\<close>
theorem pairwise_yields:
  "length (pairwise xs) = length xs
   \<and> (\<forall>i < length xs.
        pairwise xs ! i = (if i = 0 then None else Some (xs ! (i - 1)), xs ! i))"
  by (simp add: pairwise_nth)

theorem pairwise_yields_witness:
  "length (pairwise [10::nat, 20, 30]) = 3 \<and> pairwise [10::nat, 20, 30] ! 1 = (Some 10, 20)"
  using pairwise_yields [of "[10::nat, 20, 30]", THEN conjunct2, rule_format, of 1]
    pairwise_yields [of "[10::nat, 20, 30]", THEN conjunct1]
  by simp


text \<open>
  C18. The tag names are returned without duplicates, they are exactly the names that
  occur in some version, and a name comes before another exactly as its first occurrence
  does in the scan of the versions.
\<close>
theorem computeAllTagKeys_order:
  "distinct (computeAllTagKeys versions)
   \<and> set (computeAllTagKeys versions)
     = set (concat (map (\<lambda>v. object_keys (tags_or_empty v)) versions))
   \<and> sorted_wrt
       (\<lambda>a b. first_index (concat (map (\<lambda>v. object_keys (tags_or_empty v)) versions)) a
         < first_index (concat (map (\<lambda>v. object_keys (tags_or_empty v)) versions)) b)
       (computeAllTagKeys versions)"
  using sorted_wrt_computeAllTagKeys [of versions]
  by (simp add: set_computeAllTagKeys)

text \<open>
  A new version only adds a column: the cells of the earlier versions stay as they
  were, and the new cell compares the new version with the one that was last.
\<close>
theorem changeRow_append_version:
  "changeRow (versions @ [v]) attrGetter urlTemplate
    = changeRow versions attrGetter urlTemplate
      @ [changeCell attrGetter urlTemplate
          (if versions = [] then None else Some (last versions), v)]"
  by (rule changeRow_snoc)

text \<open>
  C32. The loop of \<open>pairwise\<close> terminates: started at index \<open>i\<close> it yields the pair of
  each index from \<open>i\<close> to \<open>arr.length - 2\<close> once, in this order, and stops after
  \<open>arr.length - 1 - i\<close> iterations.
\<close>
theorem pairwise_from_terminates:
  "pairwise_from arr i = map (\<lambda>j. (arr ! j, the (arr ! (j + 1)))) [i..<length arr - 1]
    \<and> length (pairwise_from arr i) = length arr - 1 - i"
  by (simp add: pairwise_from_upt)

end
