(* ===== verification/History.thy ===== *)
theory History
  imports Api
begin

text \<open>
  The rows that the three history routes of \<open>src/routes/history.ts\<close> compute before they
  render a page.

  \<^item> The accessors are the arrow functions handed to \<open>changeRow\<close>: \<open>get_user\<close>,
    \<open>get_visible\<close> (\<open>v.visible ?? true\<close>), \<open>get_changeset\<close>, \<open>get_lat\<close>, \<open>get_lon\<close>,
    \<open>get_tag\<close> (\<open>v.tags?.[t]\<close>), \<open>get_node_index\<close> and \<open>get_member_present\<close>. A missing
    optional property reads as \<open>undefined\<close>; only \<open>get_node_index\<close> returns \<open>null\<close>.
  \<^item> \<open>node_prop_lines\<close>, \<open>way_prop_lines\<close> and \<open>relation_prop_lines\<close> are the \<open>propLines\<close>
    arrays, \<open>tag_lines\<close> the \<open>tagLines\<close> array the three routes share.
  \<^item> \<open>node_rows\<close>, \<open>way_rows\<close> and \<open>relation_rows\<close> are the arrays a route hands to
    its renderer.
  \<^item> \<open>all_nodes\<close> and \<open>all_members\<close> are the collecting loops, \<open>node_lines\<close> and
    \<open>member_lines\<close> the arrays mapped over their results. \<open>index_of\<close> is
    \<open>Array.prototype.indexOf\<close> (\<open>-1\<close> when absent) and \<open>member_exists\<close> the \<open>some\<close> call
    with its field-wise comparison.

  The lemmas show that the key lists are the first-seen lists of the specification, that
  every line has one cell per version, and what the classes of each kind of row are.
\<close>

definition user_template :: jsstring where
  "user_template = ascii ''https://osm.org/user/{val}''"

definition changeset_template :: jsstring where
  "changeset_template = ascii ''https://osm.org/changeset/{val}''"

definition get_user :: "OSMElement \<Rightarrow> jsval" where
  "get_user v = JStr (user v)"

definition get_visible :: "OSMElement \<Rightarrow> jsval" where
  "get_visible v = JBool (case visible v of None \<Rightarrow> True | Some b \<Rightarrow> b)"

definition get_changeset :: "OSMElement \<Rightarrow> jsval" where
  "get_changeset v = JNum (changeset v) 0"

definition get_lat :: "OSMElement \<Rightarrow> jsval" where
  "get_lat v = (case lat v of None \<Rightarrow> JUndefined | Some (m, e) \<Rightarrow> JNum m e)"

definition get_lon :: "OSMElement \<Rightarrow> jsval" where
  "get_lon v = (case lon v of None \<Rightarrow> JUndefined | Some (m, e) \<Rightarrow> JNum m e)"

definition get_tag :: "jsstring \<Rightarrow> OSMElement \<Rightarrow> jsval" where
  "get_tag t v =
    (case tags v of
       None \<Rightarrow> JUndefined
     | Some kvs \<Rightarrow> (case map_of kvs t of None \<Rightarrow> JUndefined | Some s \<Rightarrow> JStr s))"

definition common_prop_lines :: "OSMElement list \<Rightarrow> PropLine list" where
  "common_prop_lines versions =
    [(ascii ''User'', changeRow versions get_user (Some user_template)),
     (ascii ''Visible'', changeRow versions get_visible None),
     (ascii ''Changeset'', changeRow versions get_changeset (Some changeset_template))]"

definition node_prop_lines :: "OSMElement list \<Rightarrow> PropLine list" where
  "node_prop_lines versions =
    common_prop_lines versions @
    [(ascii ''Lat'', changeRow versions get_lat None),
     (ascii ''Lon'', changeRow versions get_lon None)]"

definition way_prop_lines :: "OSMElement list \<Rightarrow> PropLine list" where
  "way_prop_lines versions = common_prop_lines versions"

definition relation_prop_lines :: "OSMElement list \<Rightarrow> PropLine list" where
  "relation_prop_lines versions = common_prop_lines versions"

definition tag_lines :: "OSMElement list \<Rightarrow> TagLine list" where
  "tag_lines versions =
    map (\<lambda>t. (t, changeRow versions (get_tag t) None)) (computeAllTagKeys versions)"

definition nodes_or_empty :: "OSMElement \<Rightarrow> int list" where
  "nodes_or_empty v = (case nodes v of None \<Rightarrow> [] | Some ns \<Rightarrow> ns)"

definition all_nodes :: "OSMElement list \<Rightarrow> int list" where
  "all_nodes versions =
    foldl (\<lambda>allNodes v. foldl push_new allNodes (nodes_or_empty v)) [] versions"

definition index_of :: "'a list \<Rightarrow> 'a \<Rightarrow> int" where
  "index_of xs x = (if first_index xs x < length xs then int (first_index xs x) else - 1)"

definition get_node_index :: "int \<Rightarrow> OSMElement \<Rightarrow> jsval" where
  "get_node_index n v =
    (let nds = nodes_or_empty v;
         idx = index_of nds n
     in if idx \<ge> 0 then JNum idx 0 else JNull)"

definition node_lines :: "OSMElement list \<Rightarrow> NodeLine list" where
  "node_lines versions =
    map (\<lambda>n. (n, changeRow versions (get_node_index n) None)) (all_nodes versions)"

definition members_or_empty :: "OSMElement \<Rightarrow> OSMMember list" where
  "members_or_empty v = (case members v of None \<Rightarrow> [] | Some ms \<Rightarrow> ms)"

definition same_member :: "OSMMember \<Rightarrow> OSMMember \<Rightarrow> bool" where
  "same_member m existing \<longleftrightarrow>
    type_m existing = type_m m \<and> ref existing = ref m \<and> role existing = role m"

definition member_exists :: "OSMMember list \<Rightarrow> OSMMember \<Rightarrow> bool" where
  "member_exists ms m = list_ex (same_member m) ms"

definition push_member :: "OSMMember list \<Rightarrow> OSMMember \<Rightarrow> OSMMember list" where
  "push_member allMembers m =
    (if \<not> member_exists allMembers m then allMembers @ [m] else allMembers)"

definition all_members :: "OSMElement list \<Rightarrow> OSMMember list" where
  "all_members versions =
    foldl (\<lambda>allMembers v. foldl push_member allMembers (members_or_empty v)) [] versions"

definition get_member_present :: "OSMMember \<Rightarrow> OSMElement \<Rightarrow> jsval" where
  "get_member_present m v = JBool (member_exists (members_or_empty v) m)"

definition member_lines :: "OSMElement list \<Rightarrow> MemberLine list" where
  "member_lines versions =
    map (\<lambda>m. (m, changeRow versions (get_member_present m) None)) (all_members versions)"

definition node_rows :: "OSMElement list \<Rightarrow> PropLine list \<times> TagLine list" where
  "node_rows versions = (node_prop_lines versions, tag_lines versions)"

definition way_rows :: "OSMElement list \<Rightarrow> PropLine list \<times> TagLine list \<times> NodeLine list" where
  "way_rows versions = (way_prop_lines versions, tag_lines versions, node_lines versions)"

definition relation_rows ::
  "OSMElement list \<Rightarrow> PropLine list \<times> TagLine list \<times> MemberLine list" where
  "relation_rows versions =
    (relation_prop_lines versions, tag_lines versions, member_lines versions)"

definition node_position :: "int \<Rightarrow> OSMElement \<Rightarrow> nat option" where
  "node_position n v =
    (if n \<in> set (nodes_or_empty v) then Some (first_index (nodes_or_empty v) n) else None)"

abbreviation ver ::
  "int \<Rightarrow> (jsstring \<times> jsstring) list option \<Rightarrow> int list option \<Rightarrow> OSMMember list option
    \<Rightarrow> OSMElement" where
  "ver n tg nds mbs \<equiv>
    \<lparr>type_el = ascii ''way'', id_el = 1, timestamp = ascii ''2020-01-01T00:00:00Z'',
     version = n, changeset = 100 + n, user = ascii ''alice'', uid = 7, visible = None,
     tags = tg, lat = None, lon = None, nodes = nds, members = mbs\<rparr>"

lemmas [hist_defs] = user_template_def changeset_template_def get_user_def get_visible_def
  get_changeset_def get_lat_def get_lon_def get_tag_def common_prop_lines_def
  node_prop_lines_def way_prop_lines_def relation_prop_lines_def tag_lines_def
  nodes_or_empty_def all_nodes_def index_of_def get_node_index_def node_lines_def
  members_or_empty_def same_member_def member_exists_def push_member_def all_members_def
  get_member_present_def member_lines_def node_position_def node_rows_def way_rows_def
  relation_rows_def


subsection \<open>Accessors\<close>

lemma get_user_not_null [simp]: "get_user v \<noteq> JNull"
  by (simp add: get_user_def)

lemma get_visible_not_null [simp]: "get_visible v \<noteq> JNull"
  by (simp add: get_visible_def)

lemma get_changeset_not_null [simp]: "get_changeset v \<noteq> JNull"
  by (simp add: get_changeset_def)

lemma get_lat_not_null [simp]: "get_lat v \<noteq> JNull"
  by (simp add: get_lat_def split: option.splits)

lemma get_lon_not_null [simp]: "get_lon v \<noteq> JNull"
  by (simp add: get_lon_def split: option.splits)

lemma get_tag_not_null [simp]: "get_tag t v \<noteq> JNull"
  by (simp add: get_tag_def split: option.splits)

lemma get_member_present_not_null [simp]: "get_member_present m v \<noteq> JNull"
  by (simp add: get_member_present_def)

lemma index_of_eq:
  "index_of xs x = (if x \<in> set xs then int (first_index xs x) else - 1)"
  by (simp add: index_of_def first_index_less_iff)

lemma get_node_index_eq:
  "get_node_index n v = absent_null (map_option (\<lambda>i. JNum (int i) 0) (node_position n v))"
  by (simp add: get_node_index_def index_of_eq node_position_def absent_null_def Let_def)

lemma same_member_eq [simp]: "same_member m existing \<longleftrightarrow> existing = m"
  by (cases m; cases existing) (auto simp: same_member_def)

lemma member_exists_iff [simp]: "member_exists ms m \<longleftrightarrow> m \<in> set ms"
  by (auto simp: member_exists_def list_ex_iff)

lemma push_member_eq: "push_member = push_new"
  by (simp add: fun_eq_iff push_member_def push_new_def)


subsection \<open>Key lists\<close>

lemma all_nodes_eq: "all_nodes vs = first_seen (concat (map nodes_or_empty vs))"
  by (simp add: all_nodes_def collect_first_seen)

lemma all_members_eq: "all_members vs = first_seen (concat (map members_or_empty vs))"
  by (simp add: all_members_def push_member_eq collect_first_seen)

lemma node_position_not_null:
  "map_option (\<lambda>i. JNum (int i) 0) (node_position n v) \<noteq> Some JNull"
  by (cases "node_position n v") simp_all

lemma length_snd_changeRow_lines:
  "list_all (\<lambda>l. length (snd l) = length vs) (map (\<lambda>k. (k, changeRow vs (g k) t)) ks)"
  by (simp add: list_all_iff changeRow_map)

lemma index_user_template: "string_index_of user_template (ascii ''{val}'') = Some 21"
  by (simp add: user_template_def ascii_def)

lemma index_changeset_template: "string_index_of changeset_template (ascii ''{val}'') = Some 26"
  by (simp add: changeset_template_def ascii_def)


subsection \<open>Properties of the rows of a page\<close>

text \<open>
  C6. The row of a tag name has \<open>new\<close> in the first column, whether or not the first
  version carries the tag, and afterwards \<open>unchanged\<close> where the tag has the same value or
  is missing in both neighbouring versions and \<open>changed\<close> in every other case, the
  appearance and the disappearance of the tag included: the accessor reads a missing tag
  as \<open>undefined\<close>, which the classifier does not take for absent.
\<close>
theorem tag_row_classes:
  assumes "versions \<noteq> []"
  shows "map clz (changeRow versions (get_tag t) None)
    = New # map (\<lambda>(p, c). if get_tag t p = get_tag t c then Unchanged else Changed)
        (zip versions (tl versions))"
  using assms by (intro changeRow_clz_never_null) simp_all

theorem tag_row_classes_witness:
  "map clz (changeRow
      [ver 1 (Some []) None None,
       ver 2 (Some [(ascii ''amenity'', ascii ''cafe'')]) None None,
       ver 3 (Some [(ascii ''amenity'', ascii ''cafe'')]) None None,
       ver 4 (Some []) None None]
      (get_tag (ascii ''amenity'')) None)
    = [New, Changed, Unchanged, Changed]"
  using tag_row_classes
    [of "[ver 1 (Some []) None None,
       ver 2 (Some [(ascii ''amenity'', ascii ''cafe'')]) None None,
       ver 3 (Some [(ascii ''amenity'', ascii ''cafe'')]) None None,
       ver 4 (Some []) None None]" "ascii ''amenity''"]
  by (simp add: get_tag_def)

text \<open>
  C5. The row of a way node follows the specification's table over the position of the
  node in each version's node list: \<open>notpresent\<close> while the node is in neither of two
  neighbouring versions, \<open>new\<close> when it appears, \<open>removed\<close> when it disappears,
  \<open>unchanged\<close> when its first position is the same and \<open>changed\<close> when it moved.
\<close>
theorem node_row_refines_spec:
  "map clz (changeRow versions (get_node_index n) urlTemplate)
    = spec_row (map (node_position n) versions)"
proof -
  let ?f = "\<lambda>i. JNum (int i) 0"
  have "map clz (changeRow versions
      (\<lambda>v. absent_null (map_option ?f (node_position n v))) urlTemplate)
    = spec_row (map (\<lambda>v. map_option ?f (node_position n v)) versions)"
    by (intro changeRow_clz_spec_row) (simp add: node_position_not_null)
  also have "map (\<lambda>v. map_option ?f (node_position n v)) versions
      = map (map_option ?f) (map (node_position n) versions)"
    by simp
  also have "spec_row \<dots> = spec_row (map (node_position n) versions)"
    by (rule spec_row_map_inj) (simp add: inj_on_def)
  finally show ?thesis
    by (simp add: get_node_index_eq [abs_def])
qed

theorem node_row_refines_spec_witness:
  "map clz (changeRow [ver 1 None (Some [1, 2, 3]) None, ver 2 None (Some [3, 1, 2]) None]
      (get_node_index 1) None) = [New, Changed]
   \<and> map clz (changeRow [ver 1 None (Some [1, 2, 3]) None, ver 2 None (Some [1, 2]) None,
      ver 3 None None None] (get_node_index 3) None) = [New, Removed, NotPresent]"
  using node_row_refines_spec
    [of "[ver 1 None (Some [1, 2, 3]) None, ver 2 None (Some [3, 1, 2]) None]" 1 None]
    node_row_refines_spec
    [of "[ver 1 None (Some [1, 2, 3]) None, ver 2 None (Some [1, 2]) None, ver 3 None None None]"
      3 None]
  by (simp add: hist_defs)

text \<open>
  C7. The row of a relation member has \<open>new\<close> in the first column, whether or not the
  first version holds the member, and afterwards \<open>unchanged\<close> where the member is in both
  or in neither of two neighbouring versions and \<open>changed\<close> where it was added or
  dropped: the accessor returns a boolean, never \<open>null\<close>.
\<close>
theorem member_row_classes:
  assumes "versions \<noteq> []"
  shows "map clz (changeRow versions (get_member_present m) None)
    = New # map (\<lambda>(p, c).
          if (m \<in> set (members_or_empty p)) = (m \<in> set (members_or_empty c))
          then Unchanged else Changed)
        (zip versions (tl versions))"
  using assms changeRow_clz_never_null [of versions "get_member_present m" None]
  by (simp add: get_member_present_def)

theorem member_row_classes_witness:
  "map clz (changeRow
      [ver 1 None None (Some [\<lparr>type_m = ascii ''way'', ref = 5, role = ascii ''outer''\<rparr>]),
       ver 2 None None (Some [\<lparr>type_m = ascii ''way'', ref = 5, role = ascii ''outer''\<rparr>,
         \<lparr>type_m = ascii ''node'', ref = 9, role = []\<rparr>])]
      (get_member_present \<lparr>type_m = ascii ''node'', ref = 9, role = []\<rparr>) None)
    = [New, Changed]"
  using member_row_classes
    [of "[ver 1 None None (Some [\<lparr>type_m = ascii ''way'', ref = 5, role = ascii ''outer''\<rparr>]),
       ver 2 None None (Some [\<lparr>type_m = ascii ''way'', ref = 5, role = ascii ''outer''\<rparr>,
         \<lparr>type_m = ascii ''node'', ref = 9, role = []\<rparr>])]"
      "\<lparr>type_m = ascii ''node'', ref = 9, role = []\<rparr>"]
  by (simp add: members_or_empty_def)

text \<open>
  C17. The node ids of a way page are collected without duplicates in the order in which
  each id is first met, scanning the versions from the oldest and each node list from its
  start.
\<close>
theorem all_nodes_first_seen:
  "all_nodes versions = first_seen (concat (map nodes_or_empty versions))"
  by (rule all_nodes_eq)

text \<open>
  C16. The members of a relation page are collected in the same way; the field-wise
  comparison of type, ref and role that guards the \<open>push\<close> is equality of members, so no
  member is collected twice and none is left out.
\<close>
theorem all_members_first_seen:
  "all_members versions = first_seen (concat (map members_or_empty versions))
   \<and> distinct (all_members versions)
   \<and> set (all_members versions) = (\<Union>v \<in> set versions. set (members_or_empty v))"
  by (simp add: all_members_eq)

text \<open>
  C38. A version without the \<open>visible\<close> property is treated as visible: its cell in the
  Visible row is the one of a version with \<open>visible = true\<close>.
\<close>
theorem visible_default:
  "changeRow (map (\<lambda>v. v\<lparr>visible := Some (case visible v of None \<Rightarrow> True | Some b \<Rightarrow> b)\<rparr>)
      versions) get_visible urlTemplate
    = changeRow versions get_visible urlTemplate"
  by (simp add: changeRow_map_versions get_visible_def [abs_def])

text \<open>
  C21. The cell of a version in the User row links to the user's page: for a non-empty
  user name without \<open>$\<close> the link is \<open>https://osm.org/user/\<close> followed by the name as
  it is.
\<close>
theorem user_link:
  assumes "user v \<noteq> []" and "jc CHR ''$'' \<notin> set (user v)"
  shows "cell_url (Some user_template) (get_user v)
    = Some (ascii ''https://osm.org/user/'' @ user v)"
  using assms
  by (simp add: cell_url_def get_user_def js_replace_def index_user_template
      get_substitution_plain)
    (simp add: user_template_def ascii_def)

theorem user_link_witness:
  "cell_url (Some user_template) (get_user (ver 1 None None None))
    = Some (ascii ''https://osm.org/user/alice'')"
  using user_link [of "ver 1 None None None"] by (simp add: ascii_def)

text \<open>
  C22. A user name that holds the replacement pattern \<open>$&\<close> does not appear in its link
  as it is: the pattern is expanded to the matched text, so the link holds the literal
  \<open>{val}\<close> in its place.
\<close>
theorem user_link_pattern:
  assumes "jc CHR ''$'' \<notin> set x" and "jc CHR ''$'' \<notin> set y"
  shows "cell_url (Some user_template) (JStr (x @ ascii ''$&'' @ y))
    = Some (ascii ''https://osm.org/user/'' @ x @ ascii ''{val}'' @ y)"
proof -
  have "get_substitution (ascii ''{val}'') b a (x @ ascii ''$&'' @ y) = x @ ascii ''{val}'' @ y"
    for a b
    using assms by (simp add: get_substitution_plain_prefix) (simp add: ascii_def get_substitution_plain)
  then show ?thesis
    by (simp add: cell_url_def js_replace_def index_user_template)
      (simp add: user_template_def ascii_def)
qed

theorem user_link_pattern_witness:
  "cell_url (Some user_template) (JStr (ascii ''a$&b''))
    = Some (ascii ''https://osm.org/user/a{val}b'')"
  using user_link_pattern [of "ascii ''a''" "ascii ''b''"] by (simp add: ascii_def)

text \<open>
  C23. The cell of a version in the Changeset row links to the changeset: for a changeset
  id other than 0 the link is \<open>https://osm.org/changeset/\<close> followed by the decimal text
  of the id; for the id 0 there is no link.
\<close>
theorem changeset_link:
  "cell_url (Some changeset_template) (get_changeset v)
    = (if changeset v = 0 then None
       else Some (ascii ''https://osm.org/changeset/'' @ number_to_string (changeset v) 0))"
proof -
  have "get_substitution m b a (number_to_string (changeset v) 0)
      = number_to_string (changeset v) 0" for m b a
    by (rule get_substitution_plain) (rule dollar_not_in_number_to_string)
  then show ?thesis
    by (simp add: cell_url_def get_changeset_def js_replace_def index_changeset_template)
      (simp add: changeset_template_def ascii_def)
qed

end
