(* ===== verification/Templates.thy ===== *)
theory Templates
  imports Types
begin

text \<open>
  The cell-level functions of the renderer in \<open>src/templates.ts\<close>.

  \<^item> \<open>escapeHtml\<close> is the chain of five global replacements, in the order of the source
    (\<open>&\<close> first); \<open>replace_all\<close> is one of them. \<open>escape_char\<close> is the specification: the
    entity of one code unit.
  \<^item> \<open>truncate\<close> converts a cell value to markup: a string longer than
    \<open>MAX_COLUMN_LENGTH\<close> code units is cut by \<open>slice(0, 20)\<close> and followed by an
    \<open>abbr\<close> element that carries the whole text; any other value goes through
    \<open>String(val ?? '')\<close> unescaped.
  \<^item> \<open>renderCell\<close> wraps the text in a \<open>td\<close> of the cell's class, with a link when the
    cell's \<open>url\<close> is truthy. \<open>getTypeIcon\<close> chooses the icon of a member.

  The lemmas show that the chain equals one pass of \<open>escape_char\<close>, and that escaped text
  holds none of the characters that would end an attribute or open a tag.
\<close>

abbreviation dq :: string where
  "dq \<equiv> [CHR 0x22]"

definition MAX_COLUMN_LENGTH :: nat where
  "MAX_COLUMN_LENGTH = 20"

definition replace_all :: "jschar \<Rightarrow> jsstring \<Rightarrow> jsstring \<Rightarrow> jsstring" where
  "replace_all c s text = concat (map (\<lambda>x. if x = c then s else [x]) text)"

definition escapeHtml :: "jsstring \<Rightarrow> jsstring" where
  "escapeHtml text =
    replace_all (jc CHR 0x27) (ascii ''&#039;'')
      (replace_all (jc CHR 0x22) (ascii ''&quot;'')
        (replace_all (jc CHR ''>'') (ascii ''&gt;'')
          (replace_all (jc CHR ''<'') (ascii ''&lt;'')
            (replace_all (jc CHR ''&'') (ascii ''&amp;'') text))))"

definition nullish_or_empty :: "jsval \<Rightarrow> jsval" where
  "nullish_or_empty v = (if v = JNull \<or> v = JUndefined then JStr [] else v)"

definition truncate :: "jsval \<Rightarrow> jsstring" where
  "truncate v =
    (case v of
       JStr s \<Rightarrow>
         if length s > MAX_COLUMN_LENGTH
         then escapeHtml (take MAX_COLUMN_LENGTH s) @ ascii (''<abbr title='' @ dq)
           @ escapeHtml s @ ascii (dq @ ''>'') @ [0x2026] @ ascii ''</abbr>''
         else escapeHtml s
     | _ \<Rightarrow> js_String (nullish_or_empty v))"

definition nodeIcon :: jsstring where
  "nodeIcon = ascii (''<img class='' @ dq @ ''primitive-icon'' @ dq @ '' src='' @ dq
    @ ''/history/icons/node.svg'' @ dq @ '' alt='' @ dq @ ''node'' @ dq @ ''>'')"

definition wayIcon :: jsstring where
  "wayIcon = ascii (''<img class='' @ dq @ ''primitive-icon'' @ dq @ '' src='' @ dq
    @ ''/history/icons/way.svg'' @ dq @ '' alt='' @ dq @ ''way'' @ dq @ ''>'')"

definition relationIcon :: jsstring where
  "relationIcon = ascii (''<img class='' @ dq @ ''primitive-icon'' @ dq @ '' src='' @ dq
    @ ''/history/icons/relation.svg'' @ dq @ '' alt='' @ dq @ ''relation'' @ dq @ ''>'')"

definition tagIcon :: jsstring where
  "tagIcon = ascii (''<img class='' @ dq @ ''primitive-icon'' @ dq @ '' src='' @ dq
    @ ''/history/icons/tag.svg'' @ dq @ '' alt='' @ dq @ ''tag'' @ dq @ ''>'')"

definition memberIcon :: jsstring where
  "memberIcon = ascii (''<img class='' @ dq @ ''primitive-icon'' @ dq @ '' src='' @ dq
    @ ''/history/icons/member.svg'' @ dq @ '' alt='' @ dq @ ''member'' @ dq @ ''>'')"

definition getTypeIcon :: "jsstring \<Rightarrow> jsstring" where
  "getTypeIcon t =
    (if t = ascii ''node'' then nodeIcon
     else if t = ascii ''way'' then wayIcon
     else if t = ascii ''relation'' then relationIcon
     else [])"

definition renderCell :: "CellInfo \<Rightarrow> jsstring" where
  "renderCell col =
    (let valStr = truncate (val col)
     in case url col of
          Some u \<Rightarrow>
            if u \<noteq> []
            then ascii (''<td class='' @ dq) @ clz_name (clz col) @ ascii (dq @ ''><a href='' @ dq)
              @ escapeHtml u @ ascii (dq @ ''>'') @ valStr @ ascii ''</a></td>''
            else ascii (''<td class='' @ dq) @ clz_name (clz col) @ ascii (dq @ ''>'') @ valStr
              @ ascii ''</td>''
        | None \<Rightarrow>
            ascii (''<td class='' @ dq) @ clz_name (clz col) @ ascii (dq @ ''>'') @ valStr
              @ ascii ''</td>'')"

fun escape_char :: "jschar \<Rightarrow> jsstring" where
  "escape_char c =
    (if c = jc CHR ''&'' then ascii ''&amp;''
     else if c = jc CHR ''<'' then ascii ''&lt;''
     else if c = jc CHR ''>'' then ascii ''&gt;''
     else if c = jc CHR 0x22 then ascii ''&quot;''
     else if c = jc CHR 0x27 then ascii ''&#039;''
     else [c])"

definition html_special :: "jschar set" where
  "html_special = {jc CHR ''<'', jc CHR ''>'', jc CHR 0x22, jc CHR 0x27}"

lemmas [hist_defs] = MAX_COLUMN_LENGTH_def replace_all_def escapeHtml_def nullish_or_empty_def
  truncate_def nodeIcon_def wayIcon_def relationIcon_def tagIcon_def memberIcon_def
  getTypeIcon_def renderCell_def html_special_def


subsection \<open>Escaping\<close>

lemma replace_all_Nil [simp]: "replace_all c s [] = []"
  by (simp add: replace_all_def)

lemma replace_all_Cons:
  "replace_all c s (x # xs) = (if x = c then s else [x]) @ replace_all c s xs"
  by (simp add: replace_all_def)

lemma replace_all_append [simp]:
  "replace_all c s (xs @ ys) = replace_all c s xs @ replace_all c s ys"
  by (simp add: replace_all_def)

lemma replace_all_concat_map:
  "replace_all c s (concat (map f xs)) = concat (map (\<lambda>x. replace_all c s (f x)) xs)"
  by (induction xs) simp_all

lemma escape_passes_char:
  "replace_all (jc CHR 0x27) (ascii ''&#039;'')
      (replace_all (jc CHR 0x22) (ascii ''&quot;'')
        (replace_all (jc CHR ''>'') (ascii ''&gt;'')
          (replace_all (jc CHR ''<'') (ascii ''&lt;'')
            (if x = jc CHR ''&'' then ascii ''&amp;'' else [x]))))
    = escape_char x"
  by (simp add: replace_all_Cons ascii_def)

lemma escapeHtml_concat_map: "escapeHtml text = concat (map escape_char text)"
proof -
  have "escapeHtml text
    = concat (map (\<lambda>x. replace_all (jc CHR 0x27) (ascii ''&#039;'')
        (replace_all (jc CHR 0x22) (ascii ''&quot;'')
          (replace_all (jc CHR ''>'') (ascii ''&gt;'')
            (replace_all (jc CHR ''<'') (ascii ''&lt;'')
              (if x = jc CHR ''&'' then ascii ''&amp;'' else [x]))))) text)"
    unfolding escapeHtml_def
    by (subst replace_all_def [of "jc CHR ''&''"]) (simp only: replace_all_concat_map)
  then show ?thesis
    by (simp only: escape_passes_char)
qed

lemma escapeHtml_Nil [simp]: "escapeHtml [] = []"
  by (simp add: escapeHtml_concat_map)

lemma escapeHtml_Cons: "escapeHtml (c # cs) = escape_char c @ escapeHtml cs"
  by (simp add: escapeHtml_concat_map)

lemma escapeHtml_append [simp]: "escapeHtml (s @ t) = escapeHtml s @ escapeHtml t"
  by (simp add: escapeHtml_concat_map)

lemma escape_char_no_special: "set (escape_char c) \<inter> html_special = {}"
  by (simp add: html_special_def ascii_def)

lemma escapeHtml_no_special: "set (escapeHtml s) \<inter> html_special = {}"
  using escape_char_no_special
  by (induction s) (auto simp: escapeHtml_Cons simp del: escape_char.simps)


subsection \<open>Properties of the cell renderer\<close>

text \<open>
  C24. The five replacement passes of \<open>escapeHtml\<close>, run one after the other in the order
  of the source, have the effect of a single pass that replaces each of the characters
  \<open>&\<close>, \<open><\<close>, \<open>>\<close>, the double and the single quote by its entity: no pass touches
  what an earlier pass has written.
\<close>
theorem escapeHtml_single_pass: "escapeHtml s = concat (map escape_char s)"
  by (rule escapeHtml_concat_map)

text \<open>
  C25. Escaped text holds no \<open><\<close>, no \<open>>\<close> and no quote, so it cannot close the
  attribute or the element it is written into.
\<close>
theorem escapeHtml_safe: "set (escapeHtml s) \<inter> html_special = {}"
  by (rule escapeHtml_no_special)

end
