(* ===== verification/Result.thy ===== *)
theory Result
  imports JSValue
begin

text \<open>
  Exceptions as values. A function of the program that can throw returns \<open>exn + 'a\<close>:
  \<open>Inl\<close> the exception, \<open>Inr\<close> the value.

  \<^item> \<open>exn\<close> has one constructor per kind of exception the program raises or meets:
    \<open>ElementDoesntExistException\<close> with its \<open>url\<close> and \<open>status\<close> fields and the plain
    \<open>Error\<close> with its message (both thrown by \<open>fetchAndParseJson\<close> in \<open>src/api.ts\<close>),
    \<open>TypeError\<close> (a property read on \<open>undefined\<close>), \<open>URIError\<close> (thrown by
    \<open>encodeURIComponent\<close>) and \<open>SyntaxError\<close> (thrown by \<open>response.json()\<close>).
  \<^item> \<open>and_then\<close> sequences two computations: the second runs only if the first returned,
    which is the order in which the holes of a template literal are evaluated.
\<close>

datatype exn =
    ElementDoesntExistException jsstring int
  | Error jsstring
  | TypeError
  | URIError
  | SyntaxError

type_synonym 'a result = "exn + 'a"

definition and_then :: "'a result \<Rightarrow> ('a \<Rightarrow> 'b result) \<Rightarrow> 'b result" where
  "and_then r f = (case r of Inl e \<Rightarrow> Inl e | Inr x \<Rightarrow> f x)"

definition map_result :: "('a \<Rightarrow> 'b) \<Rightarrow> 'a result \<Rightarrow> 'b result" where
  "map_result f r = and_then r (\<lambda>x. Inr (f x))"

fun sequence :: "'a result list \<Rightarrow> 'a list result" where
  "sequence [] = Inr []"
| "sequence (r # rs) = and_then r (\<lambda>x. map_result ((#) x) (sequence rs))"

lemmas [hist_defs] = and_then_def map_result_def

lemma and_then_Inl [simp]: "and_then (Inl e) f = Inl e"
  by (simp add: and_then_def)

lemma and_then_Inr [simp]: "and_then (Inr x) f = f x"
  by (simp add: and_then_def)

lemma and_then_Inr_right [simp]: "and_then r Inr = r"
  by (cases r) simp_all

lemma and_then_assoc: "and_then (and_then r f) g = and_then r (\<lambda>x. and_then (f x) g)"
  by (cases r) simp_all

lemma and_then_eq_Inr_iff:
  "and_then r f = Inr y \<longleftrightarrow> (\<exists>x. r = Inr x \<and> f x = Inr y)"
  by (cases r) simp_all

lemma and_then_eq_Inl_iff:
  "and_then r f = Inl e \<longleftrightarrow> r = Inl e \<or> (\<exists>x. r = Inr x \<and> f x = Inl e)"
  by (cases r) simp_all

lemma map_result_Inl [simp]: "map_result f (Inl e) = Inl e"
  by (simp add: map_result_def)

lemma map_result_Inr [simp]: "map_result f (Inr x) = Inr (f x)"
  by (simp add: map_result_def)

lemma map_result_eq_Inr_iff: "map_result f r = Inr y \<longleftrightarrow> (\<exists>x. r = Inr x \<and> y = f x)"
  by (cases r) auto

lemma map_result_eq_Inl_iff [simp]: "map_result f r = Inl e \<longleftrightarrow> r = Inl e"
  by (cases r) auto

lemma sequence_map_Inr [simp]: "sequence (map (\<lambda>x. Inr (f x)) xs) = Inr (map f xs)"
  by (induction xs) simp_all

lemma sequence_eq_Inr_iff:
  "sequence rs = Inr xs \<longleftrightarrow> rs = map Inr xs"
proof (induction rs arbitrary: xs)
  case Nil
  show ?case by auto
next
  case (Cons r rs)
  show ?case
    by (cases r; cases xs) (auto simp: Cons.IH map_result_eq_Inr_iff)
qed

lemma sequence_eq_Inl_iff:
  "sequence rs = Inl e \<longleftrightarrow>
    (\<exists>i < length rs. rs ! i = Inl e \<and> (\<forall>j < i. \<exists>x. rs ! j = Inr x))"
proof (induction rs)
  case Nil
  show ?case by simp
next
  case (Cons r rs)
  show ?case
  proof (cases r)
    case (Inl e')
    have "e' = e" if "(r # rs) ! i = Inl e" "\<forall>j < i. \<exists>x. (r # rs) ! j = Inr x" for i
      using that Inl by (cases i) auto
    with Inl show ?thesis by (auto intro: exI [of _ 0])
  next
    case (Inr x)
    have "(\<exists>i < length (r # rs). (r # rs) ! i = Inl e \<and> (\<forall>j < i. \<exists>x. (r # rs) ! j = Inr x))
      \<longleftrightarrow> (\<exists>i < length rs. rs ! i = Inl e \<and> (\<forall>j < i. \<exists>x. rs ! j = Inr x))"
      (is "?L \<longleftrightarrow> ?R")
    proof
      assume ?L
      then obtain i where i: "i < length (r # rs)" "(r # rs) ! i = Inl e"
        "\<forall>j < i. \<exists>x. (r # rs) ! j = Inr x" by blast
      with Inr obtain k where "i = Suc k" by (cases i) auto
      with i have "k < length rs \<and> rs ! k = Inl e \<and> (\<forall>j < k. \<exists>x. rs ! j = Inr x)"
        by auto
      then show ?R by blast
    next
      assume ?R
      then obtain i where i: "i < length rs" "rs ! i = Inl e" "\<forall>j < i. \<exists>x. rs ! j = Inr x"
        by blast
      with Inr have "Suc i < length (r # rs) \<and> (r # rs) ! Suc i = Inl e
          \<and> (\<forall>j < Suc i. \<exists>x. (r # rs) ! j = Inr x)"
        by (auto simp: less_Suc_eq_0_disj)
      then show ?L by blast
    qed
    with Inr Cons.IH show ?thesis by simp
  qed
qed

lemma sequence_map_returns_iff:
  "(\<exists>xs. sequence (map f ys) = Inr xs) \<longleftrightarrow> (\<forall>y \<in> set ys. \<exists>x. f y = Inr x)"
proof (induction ys)
  case Nil
  show ?case by simp
next
  case (Cons y ys)
  show ?case
  proof (cases "f y")
    case (Inl e)
    then show ?thesis by auto
  next
    case (Inr x)
    have "(\<exists>xs. map_result ((#) x) (sequence (map f ys)) = Inr xs)
      \<longleftrightarrow> (\<exists>xs. sequence (map f ys) = Inr xs)"
      by (cases "sequence (map f ys)") simp_all
    with Inr Cons.IH show ?thesis by simp
  qed
qed

lemma sequence_map_throws:
  "sequence (map f ys) = Inl e \<Longrightarrow> \<exists>y \<in> set ys. f y = Inl e"
proof (induction ys)
  case Nil
  then show ?case by simp
next
  case (Cons y ys)
  then show ?case by (cases "f y") auto
qed

lemma sequence_map_rel:
  "list_all2 (\<lambda>x y. \<forall>a b. f x = Inr a \<longrightarrow> g y = Inr b \<longrightarrow> R a b) xs ys
    \<Longrightarrow> sequence (map f xs) = Inr as \<Longrightarrow> sequence (map g ys) = Inr bs
    \<Longrightarrow> list_all2 R as bs"
proof (induction arbitrary: as bs rule: list_all2_induct)
  case Nil
  then show ?case by simp
next
  case (Cons x xs y ys)
  from Cons.prems obtain a as' b bs' where
    "f x = Inr a" "sequence (map f xs) = Inr as'" "as = a # as'"
    "g y = Inr b" "sequence (map g ys) = Inr bs'" "bs = b # bs'"
    by (auto simp: and_then_eq_Inr_iff map_result_eq_Inr_iff)
  with Cons.hyps(1) Cons.IH show ?case by simp
qed

end
