(* ===== verification/Render.thy ===== *)
theory Render
  imports Templates Uri
begin

text \<open>
  The table and page templates of \<open>src/templates.ts\<close>. A template literal is the
  concatenation of its text, one string per source line, and of its holes, in the order
  of the source; \<open>join('')\<close> over a mapped array is \<open>concat\<close> over the mapped list, and a
  number in a hole is written by \<open>number_to_string\<close>.

  \<^item> \<open>baseTemplate\<close> wraps a page body; \<open>renderIndex\<close> and \<open>renderMissingElement\<close> are the
    two pages without a table.
  \<open>renderTableHeader\<close>, \<open>renderPropLines\<close>, \<open>renderTagLines\<close>, \<open>nodesContent\<close> and
    \<open>membersContent\<close> are the sections of the table, \<open>renderNode\<close>, \<open>renderWay\<close> and
    \<open>renderRelation\<close> the three pages.
  \<^item> A function that can throw returns a \<open>result\<close>: reading \<open>versions[0].id\<close> or the last
    version of an empty list is a \<open>TypeError\<close>, and \<open>encodeURIComponent\<close> throws
    \<open>URIError\<close> on a tag name with an unpaired surrogate.
  \<^item> \<open>skeleton\<close>, \<open>is_long\<close>, \<open>has_link\<close> and \<open>same_shape\<close> are specifications: the markup
    characters \<open><\<close>, \<open>>\<close> and \<open>"\<close> of a string, and what of a cell decides its markup.

  The lemmas show which inputs make a template throw, and that the markup characters of
  every section and page are the same for any two inputs of the same shape: no user
  name, tag, timestamp or role can open or close an element or an attribute.
\<close>

definition baseTemplate :: "jsstring \<Rightarrow> jsstring" where
  \<open>baseTemplate content =
    concat
        [ascii ''<!DOCTYPE html>\<newline>'',
         ascii ''<html lang="en">\<newline>'',
         ascii ''<head>\<newline>'',
         ascii ''    <title>OSM Deep History</title>\<newline>'',
         ascii ''    <link rel="stylesheet" href="/history/styles.css">\<newline>'',
         ascii ''    <script src="/history/app.js"></script>\<newline>'',
         ascii ''</head>\<newline>'',
         ascii ''<body>\<newline>'',
         ascii ''    '',
         content,
         ascii ''\<newline>'',
         ascii ''</body>\<newline>'',
         ascii ''</html>'']\<close>

definition versionHeading :: "OSMElement \<Rightarrow> jsstring" where
  \<open>versionHeading v =
    concat
      [ascii ''<th id="version-'', number_to_string (version v) 0,
       ascii ''"><a href="#version-'', number_to_string (version v) 0,
       ascii ''">'', number_to_string (version v) 0, ascii ''</a></th>'']\<close>

definition timestampHeading :: "OSMElement \<Rightarrow> jsstring" where
  \<open>timestampHeading v = concat [ascii ''<th>'', escapeHtml (timestamp v), ascii ''</th>'']\<close>

definition renderTableHeader :: "OSMElement list \<Rightarrow> jsstring result" where
  \<open>renderTableHeader versions =
    (if versions = [] then Inl TypeError
     else
      (let lastVersion = version (last versions)
       in Inr (
    concat
        [ascii ''\<newline>'',
         ascii ''    <thead>\<newline>'',
         ascii ''        <tr>\<newline>'',
         ascii ''            <th><a href="#version-'',
         number_to_string lastVersion 0,
         ascii ''">Go to Recent &rightarrow;</a></th>\<newline>'',
         ascii ''            '',
         concat (map versionHeading versions),
         ascii ''\<newline>'',
         ascii ''        </tr>\<newline>'',
         ascii ''        <tr>\<newline>'',
         ascii ''            <th>&nbsp;</th>\<newline>'',
         ascii ''            '',
         concat (map timestampHeading versions),
         ascii ''\<newline>'',
         ascii ''        </tr>\<newline>'',
         ascii ''    </thead>''])))\<close>

fun renderPropLine :: "PropLine \<Rightarrow> jsstring" where
  \<open>renderPropLine (name, lineInfo) =
    concat
        [ascii ''\<newline>'',
         ascii ''        <tr>\<newline>'',
         ascii ''            <th>'',
         escapeHtml name,
         ascii ''</th>\<newline>'',
         ascii ''            '',
         concat (map renderCell lineInfo),
         ascii ''\<newline>'',
         ascii ''        </tr>'']\<close>

definition renderPropLines :: "OSMElement list \<Rightarrow> PropLine list \<Rightarrow> jsstring" where
  "renderPropLines versions propLines = concat (map renderPropLine propLines)"

definition renderTagCell :: "CellInfo \<Rightarrow> jsstring" where
  \<open>renderTagCell col =
    concat [ascii ''<td class="'', clz_name (clz col), ascii ''">'', truncate (val col),
      ascii ''</td>'']\<close>

fun renderTagLine :: "TagLine \<Rightarrow> jsstring result" where
  \<open>renderTagLine (name, lineInfo) =
    and_then (encodeURIComponent name) (\<lambda>encoded. Inr (
    concat
        [ascii ''\<newline>'',
         ascii ''        <tr>\<newline>'',
         ascii ''            <th>\<newline>'',
         ascii ''                '',
         tagIcon,
         ascii ''\<newline>'',
         ascii ''                <code><a href="https://taginfo.openstreetmap.org/keys/'',
         encoded,
         ascii ''#overview">'',
         escapeHtml name,
         ascii ''</a></code>\<newline>'',
         ascii ''            </th>\<newline>'',
         ascii ''            '',
         concat (map renderTagCell lineInfo),
         ascii ''\<newline>'',
         ascii ''        </tr>'']))\<close>

definition renderTagLines :: "OSMElement list \<Rightarrow> TagLine list \<Rightarrow> jsstring result" where
  \<open>renderTagLines versions tagLines =
    (if length tagLines = 0 then Inr (
    concat
        [ascii ''\<newline>'',
         ascii ''        <tr>\<newline>'',
         ascii ''            <td colspan="'',
         number_to_string (int (length versions) + 1) 0,
         ascii ''">\<newline>'',
         ascii ''                '',
         tagIcon,
         ascii ''\<newline>'',
         ascii ''                <em>No tags</em>\<newline>'',
         ascii ''            </td>\<newline>'',
         ascii ''        </tr>''])
     else map_result concat (sequence (map renderTagLine tagLines)))\<close>

definition renderIndex :: jsstring where
  \<open>renderIndex = baseTemplate (
    concat
        [ascii ''\<newline>'',
         ascii ''<h3>Deep History</h3>\<newline>'',
         ascii ''<hr/>\<newline>'',
         ascii ''\<newline>'',
         ascii ''<table>\<newline>'',
         ascii ''    <tr>\<newline>'',
         ascii ''        <form action="node.php">\<newline>'',
         ascii ''            <td align="right">\<newline>'',
         ascii ''                <label for="node">Node ID:</label>\<newline>'',
         ascii ''            </td>\<newline>'',
         ascii ''            <td>\<newline>'',
         ascii ''                <input type="text" size="16" id="node" name="id">\<newline>'',
         ascii ''            </td>\<newline>'',
         ascii ''            <td>\<newline>'',
         ascii ''                <input type="submit" value="Get History">\<newline>'',
         ascii ''            </td>\<newline>'',
         ascii ''        </form>\<newline>'',
         ascii ''    </tr>\<newline>'',
         ascii ''\<newline>'',
         ascii ''    <tr>\<newline>'',
         ascii ''        <form action="way.php">\<newline>'',
         ascii ''            <td align="right">\<newline>'',
         ascii ''                <label for="way">Way ID:</label>\<newline>'',
         ascii ''            </td>\<newline>'',
         ascii ''            <td>\<newline>'',
         ascii ''                <input type="text" size="16" id="way" name="id">\<newline>'',
         ascii ''            </td>\<newline>'',
         ascii ''            <td>\<newline>'',
         ascii ''                <input type="submit" value="Get History">\<newline>'',
         ascii ''            </td>\<newline>'',
         ascii ''        </form>\<newline>'',
         ascii ''    </tr>\<newline>'',
         ascii ''    <tr>\<newline>'',
         ascii ''        <form action="relation.php">\<newline>'',
         ascii ''            <td align="right">\<newline>'',
         ascii ''                <label for="relation">Relation ID:</label>\<newline>'',
         ascii ''            </td>\<newline>'',
         ascii ''            <td>\<newline>'',
         ascii ''                <input type="text" size="16" id="relation" name="id">\<newline>'',
         ascii ''            </td>\<newline>'',
         ascii ''            <td>\<newline>'',
         ascii ''                <input type="submit" value="Get History">\<newline>'',
         ascii ''            </td>\<newline>'',
         ascii ''        </form>\<newline>'',
         ascii ''    </tr>\<newline>'',
         ascii ''</table>\<newline>''])\<close>

definition nodePage ::
  "int \<Rightarrow> OSMElement list \<Rightarrow> jsstring \<Rightarrow> jsstring \<Rightarrow> jsstring \<Rightarrow> jsstring" where
  \<open>nodePage id' versions header props tags' =
    concat
        [ascii ''\<newline>'',
         ascii ''<h3>History of Node '',
         nodeIcon,
         ascii ''&nbsp;<a href="https://openstreetmap.org/node/'',
         number_to_string id' 0,
         ascii ''">'',
         number_to_string id' 0,
         ascii ''</a></h3>\<newline>'',
         ascii ''<hr/>\<newline>'',
         ascii ''\<newline>'',
         ascii ''<table>\<newline>'',
         ascii ''    '',
         header,
         ascii ''\<newline>'',
         ascii ''    <tbody>\<newline>'',
         ascii ''        <tr>\<newline>'',
         ascii ''            <td class="header" colspan="'',
         number_to_string (int (length versions) + 1) 0,
         ascii ''">\<newline>'',
         ascii ''                <strong>Primitive Info</strong>\<newline>'',
         ascii ''            </td>\<newline>'',
         ascii ''        </tr>\<newline>'',
         ascii ''        '',
         props,
         ascii ''\<newline>'',
         ascii ''\<newline>'',
         ascii ''        <tr>\<newline>'',
         ascii ''            <td class="header" colspan="'',
         number_to_string (int (length versions) + 1) 0,
         ascii ''">\<newline>'',
         ascii ''                <strong>Tags</strong>\<newline>'',
         ascii ''            </td>\<newline>'',
         ascii ''        </tr>\<newline>'',
         ascii ''        '',
         tags',
         ascii ''\<newline>'',
         ascii ''    </tbody>\<newline>'',
         ascii ''</table>\<newline>'']\<close>

definition renderNode ::
  "OSMElement list \<Rightarrow> PropLine list \<Rightarrow> TagLine list \<Rightarrow> jsstring result" where
  "renderNode versions propLines tagLines =
    (case versions of
       [] \<Rightarrow> Inl TypeError
     | v0 # _ \<Rightarrow>
        (let id' = id_el v0
         in and_then (renderTableHeader versions) (\<lambda>header.
            and_then (renderTagLines versions tagLines) (\<lambda>tags.
              Inr (baseTemplate (nodePage id' versions header
                (renderPropLines versions propLines) tags))))))"

definition renderBlankCell :: "CellInfo \<Rightarrow> jsstring" where
  \<open>renderBlankCell col =
    concat [ascii ''<td class="'', clz_name (clz col), ascii ''">&nbsp;</td>'']\<close>

fun renderNodeLine :: "NodeLine \<Rightarrow> jsstring" where
  \<open>renderNodeLine (nodeName, lineInfo) =
    concat
        [ascii ''\<newline>'',
         ascii ''        <tr>\<newline>'',
         ascii ''            <th>\<newline>'',
         ascii ''                '',
         memberIcon,
         ascii ''\<newline>'',
         ascii ''                <code>'',
         number_to_string nodeName 0,
         ascii ''</code>\<newline>'',
         ascii ''            </th>\<newline>'',
         ascii ''            '',
         concat (map renderBlankCell lineInfo),
         ascii ''\<newline>'',
         ascii ''        </tr>'']\<close>

definition nodesContent :: "OSMElement list \<Rightarrow> NodeLine list \<Rightarrow> jsstring" where
  \<open>nodesContent versions nodeLines =
    (if length nodeLines = 0 then
    concat
        [ascii ''\<newline>'',
         ascii ''        <tr>\<newline>'',
         ascii ''            <td colspan="'',
         number_to_string (int (length versions) + 1) 0,
         ascii ''">\<newline>'',
         ascii ''                '',
         memberIcon,
         ascii ''\<newline>'',
         ascii ''                <em>No nodes</em>\<newline>'',
         ascii ''            </td>\<newline>'',
         ascii ''        </tr>'']
     else concat (map renderNodeLine nodeLines))\<close>

definition wayPage ::
  "int \<Rightarrow> OSMElement list \<Rightarrow> jsstring \<Rightarrow> jsstring \<Rightarrow> jsstring \<Rightarrow> jsstring \<Rightarrow> jsstring" where
  \<open>wayPage id' versions header props tags' nodesContent' =
    concat
        [ascii ''\<newline>'',
         ascii ''<h3>History of Way '',
         wayIcon,
         ascii ''&nbsp;<a href="https://openstreetmap.org/way/'',
         number_to_string id' 0,
         ascii ''">'',
         number_to_string id' 0,
         ascii ''</a></h3>\<newline>'',
         ascii ''<hr/>\<newline>'',
         ascii ''\<newline>'',
         ascii ''<table>\<newline>'',
         ascii ''    '',
         header,
         ascii ''\<newline>'',
         ascii ''    <tbody>\<newline>'',
         ascii ''        <tr>\<newline>'',
         ascii ''            <td class="header" colspan="'',
         number_to_string (int (length versions) + 1) 0,
         ascii ''">\<newline>'',
         ascii ''                <strong>Primitive Info</strong>\<newline>'',
         ascii ''            </td>\<newline>'',
         ascii ''        </tr>\<newline>'',
         ascii ''        '',
         props,
         ascii ''\<newline>'',
         ascii ''\<newline>'',
         ascii ''        <tr>\<newline>'',
         ascii ''            <td class="header" colspan="'',
         number_to_string (int (length versions) + 1) 0,
         ascii ''">\<newline>'',
         ascii ''                <strong>Tags</strong>\<newline>'',
         ascii ''            </td>\<newline>'',
         ascii ''        </tr>\<newline>'',
         ascii ''        '',
         tags',
         ascii ''\<newline>'',
         ascii ''\<newline>'',
         ascii ''        <tr>\<newline>'',
         ascii ''            <td class="header" colspan="'',
         number_to_string (int (length versions) + 1) 0,
         ascii ''">\<newline>'',
         ascii ''                <strong>Nodes</strong>\<newline>'',
         ascii ''            </td>\<newline>'',
         ascii ''        </tr>\<newline>'',
         ascii ''        '',
         nodesContent',
         ascii ''\<newline>'',
         ascii ''    </tbody>\<newline>'',
         ascii ''</table>\<newline>'']\<close>

definition renderWay ::
  "OSMElement list \<Rightarrow> PropLine list \<Rightarrow> TagLine list \<Rightarrow> NodeLine list \<Rightarrow> jsstring result" where
  "renderWay versions propLines tagLines nodeLines =
    (case versions of
       [] \<Rightarrow> Inl TypeError
     | v0 # _ \<Rightarrow>
        (let id' = id_el v0
         in and_then (renderTableHeader versions) (\<lambda>header.
            and_then (renderTagLines versions tagLines) (\<lambda>tags.
              Inr (baseTemplate (wayPage id' versions header
                (renderPropLines versions propLines) tags (nodesContent versions nodeLines)))))))"

fun renderMemberLine :: "MemberLine \<Rightarrow> jsstring" where
  \<open>renderMemberLine (member, lineInfo) =
    concat
        [ascii ''\<newline>'',
         ascii ''        <tr>\<newline>'',
         ascii ''            <th>\<newline>'',
         ascii ''                '',
         getTypeIcon (type_m member),
         ascii ''\<newline>'',
         ascii ''                <code>'',
         number_to_string (ref member) 0,
         ascii '' - '',
         escapeHtml (if role member \<noteq> [] then role member else ascii ''(no role)''),
         ascii ''</code>\<newline>'',
         ascii ''            </th>\<newline>'',
         ascii ''            '',
         concat (map renderBlankCell lineInfo),
         ascii ''\<newline>'',
         ascii ''        </tr>'']\<close>

definition membersContent :: "OSMElement list \<Rightarrow> MemberLine list \<Rightarrow> jsstring" where
  \<open>membersContent versions memberLines =
    (if length memberLines = 0 then
    concat
        [ascii ''\<newline>'',
         ascii ''        <tr>\<newline>'',
         ascii ''            <td colspan="'',
         number_to_string (int (length versions) + 1) 0,
         ascii ''">\<newline>'',
         ascii ''                '',
         memberIcon,
         ascii ''\<newline>'',
         ascii ''                <em>No members</em>\<newline>'',
         ascii ''            </td>\<newline>'',
         ascii ''        </tr>'']
     else concat (map renderMemberLine memberLines))\<close>

definition relationPage ::
  "int \<Rightarrow> OSMElement list \<Rightarrow> jsstring \<Rightarrow> jsstring \<Rightarrow> jsstring \<Rightarrow> jsstring \<Rightarrow> jsstring" where
  \<open>relationPage id' versions header props tags' membersContent' =
    concat
        [ascii ''\<newline>'',
         ascii ''<h3>History of Relation '',
         relationIcon,
         ascii ''&nbsp;<a href="https://openstreetmap.org/relation/'',
         number_to_string id' 0,
         ascii ''">'',
         number_to_string id' 0,
         ascii ''</a></h3>\<newline>'',
         ascii ''<hr/>\<newline>'',
         ascii ''\<newline>'',
         ascii ''<table>\<newline>'',
         ascii ''    '',
         header,
         ascii ''\<newline>'',
         ascii ''    <tbody>\<newline>'',
         ascii ''        <tr>\<newline>'',
         ascii ''            <td class="header" colspan="'',
         number_to_string (int (length versions) + 1) 0,
         ascii ''">\<newline>'',
         ascii ''                <strong>Primitive Info</strong>\<newline>'',
         ascii ''            </td>\<newline>'',
         ascii ''        </tr>\<newline>'',
         ascii ''        '',
         props,
         ascii ''\<newline>'',
         ascii ''\<newline>'',
         ascii ''        <tr>\<newline>'',
         ascii ''            <td class="header" colspan="'',
         number_to_string (int (length versions) + 1) 0,
         ascii ''">\<newline>'',
         ascii ''                <strong>Tags</strong>\<newline>'',
         ascii ''            </td>\<newline>'',
         ascii ''        </tr>\<newline>'',
         ascii ''        '',
         tags',
         ascii ''\<newline>'',
         ascii ''\<newline>'',
         ascii ''        <tr>\<newline>'',
         ascii ''            <td class="header" colspan="'',
         number_to_string (int (length versions) + 1) 0,
         ascii ''">\<newline>'',
         ascii ''                <strong>Members</strong>\<newline>'',
         ascii ''            </td>\<newline>'',
         ascii ''        </tr>\<newline>'',
         ascii ''        '',
         membersContent',
         ascii ''\<newline>'',
         ascii ''    </tbody>\<newline>'',
         ascii ''</table>\<newline>'']\<close>

definition renderRelation ::
  "OSMElement list \<Rightarrow> PropLine list \<Rightarrow> TagLine list \<Rightarrow> MemberLine list \<Rightarrow> jsstring result" where
  "renderRelation versions propLines tagLines memberLines =
    (case versions of
       [] \<Rightarrow> Inl TypeError
     | v0 # _ \<Rightarrow>
        (let id' = id_el v0
         in and_then (renderTableHeader versions) (\<lambda>header.
            and_then (renderTagLines versions tagLines) (\<lambda>tags.
              Inr (baseTemplate (relationPage id' versions header
                (renderPropLines versions propLines) tags (membersContent versions memberLines)))))))"

definition renderMissingElement :: "jsstring \<Rightarrow> int \<Rightarrow> jsstring" where
  \<open>renderMissingElement url' status = baseTemplate (
    concat
        [ascii ''\<newline>'',
         ascii ''<h3>Object Missing</h3>\<newline>'',
         ascii ''<hr/>\<newline>'',
         ascii ''\<newline>'',
         ascii ''<p>The OSM API server says that object doesn't exist. Perhaps you could <a href="/history">go look for another object</a>?</p>\<newline>'',
         ascii ''\<newline>'',
         ascii ''<p><code>HTTP '',
         number_to_string status 0,
         ascii '' - <a href="'',
         escapeHtml url',
         ascii ''">'',
         escapeHtml url',
         ascii ''</a></code></p>\<newline>''])\<close>

definition markup :: "jschar set" where
  "markup = {jc CHR ''<'', jc CHR ''>'', jc CHR 0x22}"

definition skeleton :: "jsstring \<Rightarrow> jsstring" where
  "skeleton s = filter (\<lambda>c. c \<in> markup) s"

definition is_long :: "jsval \<Rightarrow> bool" where
  "is_long v = (case v of JStr s \<Rightarrow> length s > MAX_COLUMN_LENGTH | _ \<Rightarrow> False)"

definition has_link :: "CellInfo \<Rightarrow> bool" where
  "has_link col = (case url col of None \<Rightarrow> False | Some u \<Rightarrow> u \<noteq> [])"

definition same_shape :: "CellInfo \<Rightarrow> CellInfo \<Rightarrow> bool" where
  "same_shape c d \<longleftrightarrow> has_link c = has_link d \<and> is_long (val c) = is_long (val d)"

definition is_primitive :: "jsstring \<Rightarrow> bool" where
  "is_primitive t \<longleftrightarrow> t = ascii ''node'' \<or> t = ascii ''way'' \<or> t = ascii ''relation''"

definition same_members :: "MemberLine list \<Rightarrow> MemberLine list \<Rightarrow> bool" where
  "same_members ls ms =
    list_all2 (\<lambda>l m. is_primitive (type_m (fst l)) = is_primitive (type_m (fst m))) ls ms"

definition same_rows :: "('a \<times> CellInfo list) list \<Rightarrow> ('b \<times> CellInfo list) list \<Rightarrow> bool" where
  "same_rows ls ms = list_all2 (\<lambda>l m. list_all2 same_shape (snd l) (snd m)) ls ms"

abbreviation sample_version :: "int \<Rightarrow> jsstring \<Rightarrow> OSMElement" where
  "sample_version n u \<equiv>
    \<lparr>type_el = ascii ''node'', id_el = 42, timestamp = ascii ''2020-01-01T00:00:00Z'',
     version = n, changeset = 100 + n, user = u, uid = 7, visible = None, tags = None,
     lat = None, lon = None, nodes = None, members = None\<rparr>"

abbreviation sample_cell :: "jsval \<Rightarrow> jsstring option \<Rightarrow> CellInfo" where
  "sample_cell v u \<equiv> \<lparr>clz = New, val = v, url = u\<rparr>"

definition page_frame ::
  "OSMElement list \<Rightarrow> TagLine list \<Rightarrow> (int \<Rightarrow> jsstring \<Rightarrow> jsstring \<Rightarrow> jsstring)
    \<Rightarrow> jsstring result" where
  "page_frame versions tagLines body =
    (if versions = [] then Inl TypeError
     else and_then (renderTableHeader versions) (\<lambda>header.
       and_then (renderTagLines versions tagLines) (\<lambda>tags'.
         Inr (baseTemplate (body (id_el (hd versions)) header tags')))))"

lemmas [hist_defs] = baseTemplate_def versionHeading_def timestampHeading_def
  renderTableHeader_def renderPropLines_def renderTagCell_def renderTagLines_def
  renderIndex_def nodePage_def renderNode_def renderBlankCell_def nodesContent_def
  wayPage_def renderWay_def membersContent_def relationPage_def renderRelation_def renderMissingElement_def markup_def skeleton_def
  is_long_def has_link_def same_shape_def is_primitive_def same_rows_def same_members_def


subsection \<open>Markup characters\<close>

lemma skeleton_Nil [simp]: "skeleton [] = []"
  by (simp add: skeleton_def)

lemma skeleton_append [simp]: "skeleton (s @ t) = skeleton s @ skeleton t"
  by (simp add: skeleton_def)

lemma skeleton_concat: "skeleton (concat ss) = concat (map skeleton ss)"
  by (induction ss) simp_all

lemma skeleton_empty: "set s \<inter> markup = {} \<Longrightarrow> skeleton s = []"
  by (auto simp: skeleton_def filter_empty_conv)

lemma markup_html_special: "markup \<subseteq> html_special"
  by (simp add: markup_def html_special_def)

lemma skeleton_escapeHtml [simp]: "skeleton (escapeHtml s) = []"
  using escapeHtml_no_special [of s] markup_html_special
  by (intro skeleton_empty) blast

lemma number_chars_markup: "number_chars \<inter> markup = {}"
  by (simp add: number_chars_def markup_def)

lemma skeleton_number_to_string [simp]: "skeleton (number_to_string m e) = []"
  using set_number_to_string [of m e] number_chars_markup
  by (intro skeleton_empty) blast

lemma skeleton_clz_name [simp]: "skeleton (clz_name c) = []"
  by (cases c) (simp_all add: skeleton_def markup_def ascii_def)

lemma uri_chars_markup: "uri_chars \<inter> markup = {}"
  by (simp add: uri_chars_def uriUnescaped_def markup_def ascii_def)

lemma skeleton_encodeURIComponent:
  "encodeURIComponent s = Inr r \<Longrightarrow> skeleton r = []"
  using encodeURIComponent_set [of s r] uri_chars_markup
  by (intro skeleton_empty) blast

lemma skeleton_boolean [simp]:
  "skeleton (ascii ''true'') = []" "skeleton (ascii ''false'') = []"
  by (simp_all add: skeleton_def markup_def ascii_def)

lemma skeleton_abbr: \<open>skeleton (ascii ''<abbr title="'' @ x @ ascii ''">'' @ y @ ascii ''</abbr>'')
    = ascii ''<"'' @ skeleton x @ ascii ''">'' @ skeleton y @ ascii ''<>''\<close>
  by (simp add: skeleton_def markup_def ascii_def)

lemma skeleton_ellipsis [simp]: "skeleton [0x2026] = []"
  by (simp add: skeleton_def markup_def)

lemma skeleton_truncate:
  \<open>skeleton (truncate v) = (if is_long v then ascii ''<""><>'' else [])\<close>
proof (cases v)
  case (JStr s)
  then show ?thesis
    using skeleton_abbr [of "escapeHtml s" "[0x2026]"]
    by (simp add: truncate_def is_long_def) (simp add: ascii_def)
qed (simp_all add: truncate_def is_long_def nullish_or_empty_def)

lemma skeleton_truncate_cong:
  "is_long v = is_long w \<Longrightarrow> skeleton (truncate v) = skeleton (truncate w)"
  by (simp add: skeleton_truncate)

lemma skeleton_renderCell_cong:
  "same_shape c d \<Longrightarrow> skeleton (renderCell c) = skeleton (renderCell d)"
  using skeleton_truncate_cong [of "val c" "val d"]
  by (auto simp: same_shape_def has_link_def renderCell_def Let_def split: option.splits)



subsection \<open>Rows and sections\<close>

lemma skeleton_concat_map_cong:
  "list_all2 (\<lambda>x y. skeleton (f x) = skeleton (g y)) xs ys
    \<Longrightarrow> skeleton (concat (map f xs)) = skeleton (concat (map g ys))"
  by (induction rule: list_all2_induct) simp_all

lemma skeleton_concat_map_const:
  "(\<And>x y. skeleton (f x) = skeleton (g y)) \<Longrightarrow> length xs = length ys
    \<Longrightarrow> skeleton (concat (map f xs)) = skeleton (concat (map g ys))"
  by (rule skeleton_concat_map_cong) (simp add: list_all2_conv_all_nth)

lemma skeleton_renderCells_cong:
  "list_all2 same_shape r r'
    \<Longrightarrow> skeleton (concat (map renderCell r)) = skeleton (concat (map renderCell r'))"
  by (rule skeleton_concat_map_cong)
    (erule list_all2_mono, rule skeleton_renderCell_cong)

lemma skeleton_renderTagCell_cong:
  "same_shape c d \<Longrightarrow> skeleton (renderTagCell c) = skeleton (renderTagCell d)"
  using skeleton_truncate_cong [of "val c" "val d"]
  by (simp add: same_shape_def renderTagCell_def)

lemma skeleton_renderTagCells_cong:
  "list_all2 same_shape r r'
    \<Longrightarrow> skeleton (concat (map renderTagCell r)) = skeleton (concat (map renderTagCell r'))"
  by (rule skeleton_concat_map_cong)
    (erule list_all2_mono, rule skeleton_renderTagCell_cong)

lemma skeleton_renderBlankCells_cong:
  "list_all2 same_shape r r'
    \<Longrightarrow> skeleton (concat (map renderBlankCell r)) = skeleton (concat (map renderBlankCell r'))"
  by (rule skeleton_concat_map_const)
    (simp_all add: renderBlankCell_def list_all2_lengthD)

lemma skeleton_versionHeading: "skeleton (versionHeading v) = skeleton (versionHeading w)"
  by (simp add: versionHeading_def)

lemma skeleton_timestampHeading: "skeleton (timestampHeading v) = skeleton (timestampHeading w)"
  by (simp add: timestampHeading_def)

lemma skeleton_renderPropLine_cong:
  "list_all2 same_shape (snd l) (snd m)
    \<Longrightarrow> skeleton (renderPropLine l) = skeleton (renderPropLine m)"
  by (cases l; cases m) (simp add: skeleton_renderCells_cong)

lemma skeleton_renderPropLines_cong:
  "same_rows ls ms \<Longrightarrow> skeleton (renderPropLines vs ls) = skeleton (renderPropLines ws ms)"
  unfolding renderPropLines_def same_rows_def
  by (rule skeleton_concat_map_cong) (erule list_all2_mono, rule skeleton_renderPropLine_cong)

lemma skeleton_renderNodeLine_cong:
  "list_all2 same_shape (snd l) (snd m)
    \<Longrightarrow> skeleton (renderNodeLine l) = skeleton (renderNodeLine m)"
  by (cases l; cases m) (simp add: skeleton_renderBlankCells_cong)

lemma same_rows_lengthD: "same_rows ls ms \<Longrightarrow> length ls = length ms"
  by (simp add: same_rows_def list_all2_lengthD)

lemma skeleton_nodesContent_cong:
  "length vs = length ws \<Longrightarrow> same_rows ls ms
    \<Longrightarrow> skeleton (nodesContent vs ls) = skeleton (nodesContent ws ms)"
  using same_rows_lengthD [of ls ms]
  by (auto simp: nodesContent_def same_rows_def
      intro!: skeleton_concat_map_cong elim!: list_all2_mono skeleton_renderNodeLine_cong)

lemma skeleton_icons:
  "skeleton wayIcon = skeleton nodeIcon" "skeleton relationIcon = skeleton nodeIcon"
  by (simp_all add: wayIcon_def nodeIcon_def relationIcon_def skeleton_def markup_def ascii_def)

lemma skeleton_getTypeIcon:
  "skeleton (getTypeIcon t) = (if is_primitive t then skeleton nodeIcon else [])"
  by (simp add: getTypeIcon_def is_primitive_def skeleton_icons)

lemma skeleton_renderMemberLine_cong:
  "is_primitive (type_m (fst l)) = is_primitive (type_m (fst m))
    \<Longrightarrow> list_all2 same_shape (snd l) (snd m)
    \<Longrightarrow> skeleton (renderMemberLine l) = skeleton (renderMemberLine m)"
  by (cases l; cases m) (simp add: skeleton_renderBlankCells_cong skeleton_getTypeIcon)

lemma skeleton_membersContent_cong:
  assumes "length vs = length ws" "same_rows ls ms" "same_members ls ms"
  shows "skeleton (membersContent vs ls) = skeleton (membersContent ws ms)"
proof -
  have "list_all2 (\<lambda>l m. skeleton (renderMemberLine l) = skeleton (renderMemberLine m)) ls ms"
  proof (rule list_all2_all_nthI)
    show "length ls = length ms"
      using assms(2) by (rule same_rows_lengthD)
    fix i assume "i < length ls"
    with assms(2,3) show "skeleton (renderMemberLine (ls ! i)) = skeleton (renderMemberLine (ms ! i))"
      by (auto simp: same_rows_def same_members_def dest: list_all2_nthD
          intro!: skeleton_renderMemberLine_cong)
  qed
  then show ?thesis
    using assms(1) same_rows_lengthD [OF assms(2)]
    by (auto simp: membersContent_def intro: skeleton_concat_map_cong)
qed

lemma skeleton_renderTagLine_cong:
  "list_all2 same_shape (snd l) (snd m) \<Longrightarrow> renderTagLine l = Inr a
    \<Longrightarrow> renderTagLine m = Inr b \<Longrightarrow> skeleton a = skeleton b"
  by (cases l; cases m)
    (auto simp: and_then_eq_Inr_iff skeleton_encodeURIComponent skeleton_renderTagCells_cong)

lemma skeleton_renderTagLines_cong:
  assumes "length vs = length ws" "same_rows ls ms"
    and "renderTagLines vs ls = Inr a" "renderTagLines ws ms = Inr b"
  shows "skeleton a = skeleton b"
proof (cases "ls = []")
  case True
  with assms show ?thesis
    using same_rows_lengthD [OF assms(2)] by (auto simp: renderTagLines_def)
next
  case False
  with assms(2) have "ms \<noteq> []"
    using same_rows_lengthD [OF assms(2)] by auto
  with False assms(3,4) obtain as bs where seq:
    "sequence (map renderTagLine ls) = Inr as" "a = concat as"
    "sequence (map renderTagLine ms) = Inr bs" "b = concat bs"
    by (auto simp: renderTagLines_def map_result_eq_Inr_iff)
  have "list_all2 (\<lambda>l m. \<forall>a b. renderTagLine l = Inr a \<longrightarrow> renderTagLine m = Inr b
      \<longrightarrow> skeleton a = skeleton b) ls ms"
    using assms(2) unfolding same_rows_def
    by (rule list_all2_mono) (blast intro: skeleton_renderTagLine_cong)
  then have "list_all2 (\<lambda>a b. skeleton a = skeleton b) as bs"
    using seq(1,3) by (rule sequence_map_rel)
  then show ?thesis
    using skeleton_concat_map_cong [of "\<lambda>x. x" "\<lambda>x. x" as bs] seq by simp
qed

lemma skeleton_renderTableHeader_cong:
  "length vs = length ws \<Longrightarrow> renderTableHeader vs = Inr a \<Longrightarrow> renderTableHeader ws = Inr b
    \<Longrightarrow> skeleton a = skeleton b"
  using skeleton_concat_map_const [of versionHeading versionHeading vs ws,
      OF skeleton_versionHeading]
    skeleton_concat_map_const [of timestampHeading timestampHeading vs ws,
      OF skeleton_timestampHeading]
  by (auto simp: renderTableHeader_def Let_def split: if_splits)

lemma skeleton_baseTemplate_cong:
  "skeleton c = skeleton d \<Longrightarrow> skeleton (baseTemplate c) = skeleton (baseTemplate d)"
  by (simp add: baseTemplate_def)


subsection \<open>Exceptions\<close>

lemma renderTableHeader_returns_iff: "(\<exists>h. renderTableHeader vs = Inr h) \<longleftrightarrow> vs \<noteq> []"
  by (simp add: renderTableHeader_def Let_def)

lemma renderTableHeader_throws: "renderTableHeader vs = Inl e \<longleftrightarrow> vs = [] \<and> e = TypeError"
  by (auto simp: renderTableHeader_def Let_def)

lemma renderTagLine_returns_iff: "(\<exists>a. renderTagLine l = Inr a) \<longleftrightarrow> well_formed (fst l)"
  using encodeURIComponent_well_formed [of "fst l"]
  by (cases l) (auto simp: and_then_eq_Inr_iff)

lemma renderTagLine_throws: "renderTagLine l = Inl e \<Longrightarrow> e = URIError"
  by (cases l) (auto simp: and_then_eq_Inl_iff dest: encodeURIComponent_throws)

lemma renderTagLines_returns_iff:
  "(\<exists>a. renderTagLines vs ls = Inr a) \<longleftrightarrow> (\<forall>l \<in> set ls. well_formed (fst l))"
proof (cases "ls = []")
  case True
  then show ?thesis by (simp add: renderTagLines_def)
next
  case False
  have "(\<exists>a. map_result concat (sequence (map renderTagLine ls)) = Inr a)
    \<longleftrightarrow> (\<exists>as. sequence (map renderTagLine ls) = Inr as)"
    by simp
  with False show ?thesis
    by (simp add: renderTagLines_def sequence_map_returns_iff renderTagLine_returns_iff)
qed

lemma renderTagLines_throws: "renderTagLines vs ls = Inl e \<Longrightarrow> e = URIError"
  by (auto simp: renderTagLines_def split: if_splits
      dest!: sequence_map_throws dest: renderTagLine_throws)


subsection \<open>Pages\<close>

lemma renderNode_frame:
  "renderNode vs pls tls
    = page_frame vs tls (\<lambda>i h t. nodePage i vs h (renderPropLines vs pls) t)"
  by (cases vs) (simp_all add: renderNode_def page_frame_def)

lemma renderWay_frame:
  "renderWay vs pls tls nls
    = page_frame vs tls (\<lambda>i h t. wayPage i vs h (renderPropLines vs pls) t (nodesContent vs nls))"
  by (cases vs) (simp_all add: renderWay_def page_frame_def)

lemma renderRelation_frame:
  "renderRelation vs pls tls mls
    = page_frame vs tls
        (\<lambda>i h t. relationPage i vs h (renderPropLines vs pls) t (membersContent vs mls))"
  by (cases vs) (simp_all add: renderRelation_def page_frame_def)

lemmas page_frames = renderNode_frame renderWay_frame renderRelation_frame

lemma page_frame_eq_Inr_iff:
  "page_frame vs tls body = Inr p \<longleftrightarrow>
    vs \<noteq> [] \<and> (\<exists>h t. renderTableHeader vs = Inr h \<and> renderTagLines vs tls = Inr t
      \<and> p = baseTemplate (body (id_el (hd vs)) h t))"
  by (simp add: page_frame_def and_then_eq_Inr_iff eq_commute [of p])

lemma page_frame_returns_iff:
  "(\<exists>p. page_frame vs tls body = Inr p) \<longleftrightarrow> vs \<noteq> [] \<and> (\<forall>l \<in> set tls. well_formed (fst l))"
  using renderTagLines_returns_iff [of vs tls] renderTableHeader_returns_iff [of vs]
  by (simp add: page_frame_eq_Inr_iff) blast

lemma page_frame_throws_iff:
  "page_frame vs tls body = Inl e \<longleftrightarrow>
    (if vs = [] then e = TypeError else e = URIError \<and> \<not> (\<forall>l \<in> set tls. well_formed (fst l)))"
proof (cases "vs = []")
  case True
  then show ?thesis by (auto simp: page_frame_def)
next
  case False
  then obtain h where h: "renderTableHeader vs = Inr h"
    using renderTableHeader_returns_iff [of vs] by auto
  show ?thesis
  proof (cases "renderTagLines vs tls")
    case (Inl e')
    then have "e' = URIError" "\<not> (\<forall>l \<in> set tls. well_formed (fst l))"
      using renderTagLines_throws [of vs tls e'] renderTagLines_returns_iff [of vs tls]
      by auto
    with Inl False h show ?thesis by (auto simp: page_frame_def)
  next
    case (Inr t)
    then have "\<forall>l \<in> set tls. well_formed (fst l)"
      using renderTagLines_returns_iff [of vs tls] by auto
    with Inr False h show ?thesis by (simp add: page_frame_def)
  qed
qed

lemma skeleton_page_frame_cong:
  assumes "length vs = length ws" "same_rows tls tls'"
    and "page_frame vs tls body = Inr p" "page_frame ws tls' body' = Inr q"
    and body: "\<And>i j h h' t t'. skeleton h = skeleton h' \<Longrightarrow> skeleton t = skeleton t'
      \<Longrightarrow> skeleton (body i h t) = skeleton (body' j h' t')"
  shows "skeleton p = skeleton q"
proof -
  from assms(3) obtain h t where p: "renderTableHeader vs = Inr h"
    "renderTagLines vs tls = Inr t" "p = baseTemplate (body (id_el (hd vs)) h t)"
    unfolding page_frame_eq_Inr_iff by blast
  from assms(4) obtain h' t' where q: "renderTableHeader ws = Inr h'"
    "renderTagLines ws tls' = Inr t'" "q = baseTemplate (body' (id_el (hd ws)) h' t')"
    unfolding page_frame_eq_Inr_iff by blast
  show ?thesis
    unfolding p(3) q(3)
    by (intro skeleton_baseTemplate_cong body
        skeleton_renderTableHeader_cong [OF assms(1) p(1) q(1)]
        skeleton_renderTagLines_cong [OF assms(1,2) p(2) q(2)])
qed

lemma skeleton_nodePage_cong:
  "length vs = length ws \<Longrightarrow> skeleton h = skeleton h' \<Longrightarrow> skeleton ps = skeleton ps'
    \<Longrightarrow> skeleton ts = skeleton ts'
    \<Longrightarrow> skeleton (nodePage i vs h ps ts) = skeleton (nodePage j ws h' ps' ts')"
  by (simp add: nodePage_def)

lemma skeleton_wayPage_cong:
  "length vs = length ws \<Longrightarrow> skeleton h = skeleton h' \<Longrightarrow> skeleton ps = skeleton ps'
    \<Longrightarrow> skeleton ts = skeleton ts' \<Longrightarrow> skeleton ns = skeleton ns'
    \<Longrightarrow> skeleton (wayPage i vs h ps ts ns) = skeleton (wayPage j ws h' ps' ts' ns')"
  by (simp add: wayPage_def)

lemma skeleton_relationPage_cong:
  "length vs = length ws \<Longrightarrow> skeleton h = skeleton h' \<Longrightarrow> skeleton ps = skeleton ps'
    \<Longrightarrow> skeleton ts = skeleton ts' \<Longrightarrow> skeleton ms = skeleton ms'
    \<Longrightarrow> skeleton (relationPage i vs h ps ts ms) = skeleton (relationPage j ws h' ps' ts' ms')"
  by (simp add: relationPage_def)

lemma skeleton_cell_literals:
  \<open>skeleton (ascii ''<td class="'') = ascii ''<"''\<close>
  \<open>skeleton (ascii ''"><a href="'') = ascii ''"><"''\<close>
  \<open>skeleton (ascii ''">'') = ascii ''">''\<close>
  \<open>skeleton (ascii ''</a></td>'') = ascii ''<><>''\<close>
  \<open>skeleton (ascii ''</td>'') = ascii ''<>''\<close>
  by (simp_all add: skeleton_def markup_def ascii_def)

lemma skeleton_renderCell:
  \<open>skeleton (renderCell col) =
    (if has_link col
     then ascii ''<""><"">'' @ skeleton (truncate (val col)) @ ascii ''<><>''
     else ascii ''<"">'' @ skeleton (truncate (val col)) @ ascii ''<>'')\<close>
  by (auto simp: renderCell_def has_link_def Let_def skeleton_cell_literals
      split: option.splits) (simp_all add: ascii_def)

subsection \<open>Properties of the renderer\<close>

text \<open>
  C11. The markup characters of a node page (\<open><\<close>, \<open>>\<close> and the double quote) are the
  same for any two inputs with the same number of versions and with rows of the same
  shape, where the shape of a cell is whether it has a link and whether its text is
  abbreviated: no user name, tag name, tag value or timestamp can open or close an
  element or an attribute.
\<close>
theorem renderNode_markup:
  assumes "length vs = length ws" "same_rows pls pls'" "same_rows tls tls'"
    and "renderNode vs pls tls = Inr p" "renderNode ws pls' tls' = Inr q"
  shows "skeleton p = skeleton q"
  using assms(1,3) assms(4,5) [unfolded renderNode_frame]
  by (rule skeleton_page_frame_cong)
    (intro skeleton_nodePage_cong assms(1) skeleton_renderPropLines_cong [OF assms(2)])

theorem renderNode_markup_witness:
  "\<exists>p q. renderNode [sample_version 1 (ascii ''alice'')]
        [(ascii ''User'', [sample_cell (JStr (ascii ''alice'')) (Some (ascii ''/user/alice''))])]
        [(ascii ''name'', [sample_cell (JStr (ascii ''Main Street'')) None])] = Inr p
    \<and> renderNode [sample_version 2 (ascii ''<script>'')]
        [(ascii ''User'', [sample_cell (JStr (ascii ''<script>'')) (Some (ascii (dq @ ''><b>'')))])]
        [(ascii ''<b>'', [sample_cell (JStr (ascii ''</td><script>'')) None])] = Inr q
    \<and> skeleton p = skeleton q"
proof -
  let ?A = "renderNode [sample_version 1 (ascii ''alice'')]
        [(ascii ''User'', [sample_cell (JStr (ascii ''alice'')) (Some (ascii ''/user/alice''))])]
        [(ascii ''name'', [sample_cell (JStr (ascii ''Main Street'')) None])]"
  let ?B = "renderNode [sample_version 2 (ascii ''<script>'')]
        [(ascii ''User'', [sample_cell (JStr (ascii ''<script>'')) (Some (ascii (dq @ ''><b>'')))])]
        [(ascii ''<b>'', [sample_cell (JStr (ascii ''</td><script>'')) None])]"
  have wf: "well_formed (ascii ''name'')" "well_formed (ascii ''<b>'')"
    by (simp_all add: ascii_def is_high_surrogate_def is_low_surrogate_def)
  have "\<exists>p. ?A = Inr p" "\<exists>q. ?B = Inr q"
    unfolding renderNode_frame page_frame_returns_iff using wf by simp_all
  then obtain p q where p: "?A = Inr p" and q: "?B = Inr q"
    by blast
  have "skeleton p = skeleton q"
    by (rule renderNode_markup [OF _ _ _ p q])
      (simp_all add: same_rows_def same_shape_def has_link_def is_long_def
        MAX_COLUMN_LENGTH_def ascii_def)
  with p q show ?thesis by blast
qed

text \<open>
  C33. The markup characters of a way page, whose node rows show no text at all, are
  the same for any two inputs with the same number of versions and with property, tag
  and node rows of the same shape.
\<close>
theorem renderWay_markup:
  assumes "length vs = length ws" "same_rows pls pls'" "same_rows tls tls'"
    and "same_rows nls nls'"
    and "renderWay vs pls tls nls = Inr p" "renderWay ws pls' tls' nls' = Inr q"
  shows "skeleton p = skeleton q"
  using assms(1,3) assms(5,6) [unfolded renderWay_frame]
  by (rule skeleton_page_frame_cong)
    (intro skeleton_wayPage_cong assms(1) skeleton_renderPropLines_cong [OF assms(2)]
      skeleton_nodesContent_cong [OF assms(1,4)])

theorem renderWay_markup_witness:
  "\<exists>p q. renderWay [sample_version 1 (ascii ''alice'')] []
        [(ascii ''name'', [sample_cell (JStr (ascii ''Main Street'')) None])]
        [(5, [sample_cell (JNum 0 0) None])] = Inr p
    \<and> renderWay [sample_version 2 (ascii ''<script>'')] []
        [(ascii ''<b>'', [sample_cell (JStr (ascii ''</td><script>'')) None])]
        [(7, [sample_cell JNull None])] = Inr q
    \<and> skeleton p = skeleton q"
proof -
  let ?A = "renderWay [sample_version 1 (ascii ''alice'')] []
        [(ascii ''name'', [sample_cell (JStr (ascii ''Main Street'')) None])]
        [(5, [sample_cell (JNum 0 0) None])]"
  let ?B = "renderWay [sample_version 2 (ascii ''<script>'')] []
        [(ascii ''<b>'', [sample_cell (JStr (ascii ''</td><script>'')) None])]
        [(7, [sample_cell JNull None])]"
  have wf: "well_formed (ascii ''name'')" "well_formed (ascii ''<b>'')"
    by (simp_all add: ascii_def is_high_surrogate_def is_low_surrogate_def)
  have "\<exists>p. ?A = Inr p" "\<exists>q. ?B = Inr q"
    unfolding renderWay_frame page_frame_returns_iff using wf by simp_all
  then obtain p q where p: "?A = Inr p" and q: "?B = Inr q"
    by blast
  have "skeleton p = skeleton q"
    by (rule renderWay_markup [OF _ _ _ _ p q])
      (simp_all add: same_rows_def same_shape_def has_link_def is_long_def
        MAX_COLUMN_LENGTH_def ascii_def)
  with p q show ?thesis by blast
qed

text \<open>
  C34. The markup characters of a relation page are the same for any two inputs with
  the same number of versions and with rows of the same shape, where the shape of a
  member row also says whether the type of the member is one of \<open>node\<close>, \<open>way\<close> and
  \<open>relation\<close>, the types that have an icon; the role of a member is escaped.
\<close>
theorem renderRelation_markup:
  assumes "length vs = length ws" "same_rows pls pls'" "same_rows tls tls'"
    and "same_rows mls mls'" "same_members mls mls'"
    and "renderRelation vs pls tls mls = Inr p" "renderRelation ws pls' tls' mls' = Inr q"
  shows "skeleton p = skeleton q"
  using assms(1,3) assms(6,7) [unfolded renderRelation_frame]
  by (rule skeleton_page_frame_cong)
    (intro skeleton_relationPage_cong assms(1) skeleton_renderPropLines_cong [OF assms(2)]
      skeleton_membersContent_cong [OF assms(1,4,5)])

theorem renderRelation_markup_witness:
  "\<exists>p q. renderRelation [sample_version 1 (ascii ''alice'')] [] []
        [(\<lparr>type_m = ascii ''way'', ref = 5, role = ascii ''outer''\<rparr>,
          [sample_cell (JBool True) None])] = Inr p
    \<and> renderRelation [sample_version 2 (ascii ''<script>'')] [] []
        [(\<lparr>type_m = ascii ''node'', ref = 9, role = ascii ''<img>''\<rparr>,
          [sample_cell (JBool False) None])] = Inr q
    \<and> skeleton p = skeleton q"
proof -
  let ?A = "renderRelation [sample_version 1 (ascii ''alice'')] [] []
        [(\<lparr>type_m = ascii ''way'', ref = 5, role = ascii ''outer''\<rparr>,
          [sample_cell (JBool True) None])]"
  let ?B = "renderRelation [sample_version 2 (ascii ''<script>'')] [] []
        [(\<lparr>type_m = ascii ''node'', ref = 9, role = ascii ''<img>''\<rparr>,
          [sample_cell (JBool False) None])]"
  have "\<exists>p. ?A = Inr p" "\<exists>q. ?B = Inr q"
    unfolding renderRelation_frame page_frame_returns_iff by simp_all
  then obtain p q where p: "?A = Inr p" and q: "?B = Inr q"
    by blast
  have "skeleton p = skeleton q"
    by (rule renderRelation_markup [OF _ _ _ _ _ p q])
      (simp_all add: same_rows_def same_members_def same_shape_def has_link_def is_long_def
        is_primitive_def)
  with p q show ?thesis by blast
qed

text \<open>
  C26. The markup characters of a rendered cell are those of its template: a \<open>td\<close> with
  one attribute, an \<open>a\<close> with one attribute when the cell has a link, and an \<open>abbr\<close> with
  one attribute when the text is longer than twenty code units. The text and the link
  add none.
\<close>
theorem renderCell_markup:
  \<open>skeleton (renderCell col) =
    (if has_link col then ascii ''<""><"">'' else ascii ''<"">'')
    @ (if is_long (val col) then ascii ''<""><>'' else [])
    @ (if has_link col then ascii ''<><>'' else ascii ''<>'')\<close>
  by (simp add: skeleton_renderCell skeleton_truncate)

text \<open>
  C15. \<open>renderNode\<close> throws in two cases only: a \<open>TypeError\<close> for an empty version list
  (the read of \<open>versions[0].id\<close>), and otherwise a \<open>URIError\<close> exactly when some tag name
  has an unpaired surrogate.
\<close>
theorem renderNode_throws_iff:
  "renderNode vs pls tls = Inl e \<longleftrightarrow>
    (if vs = [] then e = TypeError
     else e = URIError \<and> \<not> list_all (\<lambda>l. well_formed (fst l)) tls)"
  by (simp add: renderNode_frame page_frame_throws_iff list_all_iff)

text \<open>
  \<open>renderWay\<close> returns a page exactly when there is at least one version and every
  tag name is well formed.
\<close>
theorem renderWay_returns_iff:
  "(\<exists>p. renderWay vs pls tls nls = Inr p) \<longleftrightarrow>
    vs \<noteq> [] \<and> list_all (\<lambda>l. well_formed (fst l)) tls"
  by (simp add: renderWay_frame page_frame_returns_iff list_all_iff)

text \<open>
  \<open>renderRelation\<close> returns a page exactly when there is at least one version and
  every tag name is well formed.
\<close>
theorem renderRelation_returns_iff:
  "(\<exists>p. renderRelation vs pls tls mls = Inr p) \<longleftrightarrow>
    vs \<noteq> [] \<and> list_all (\<lambda>l. well_formed (fst l)) tls"
  by (simp add: renderRelation_frame page_frame_returns_iff list_all_iff)

text \<open>
  The markup characters of the page for a missing element do not depend on the
  address and the status it shows.
\<close>
theorem renderMissingElement_markup:
  "skeleton (renderMissingElement u s) = skeleton (renderMissingElement [] 0)"
  by (simp add: renderMissingElement_def baseTemplate_def)

end
