(* ===== verification/Routes.thy ===== *)
theory Routes
  imports History Render
begin

text \<open>
  The client of the OSM API (\<open>fetchAndParseJson\<close> and the three \<open>fetch...History\<close>
  functions of \<open>src/api.ts\<close>), the handlers and the error handler of
  \<open>src/routes/history.ts\<close>, and the application of \<open>src/index.ts\<close>.

  \<^item> The network is a parameter: \<open>fetch\<close> maps an address to the response of the server,
    or to the exception of a failed request. A response carries its \<open>status\<close> and the
    outcome of \<open>(await response.json()).elements\<close>: an exception, \<open>undefined\<close> (\<open>None\<close>)
    or the version list.
  \<^item> A request is the route that the router has matched, with the text of its
    parameter: \<open>request\<close> for \<open>historyRoutes\<close>, \<open>app_request\<close> for the application. A
    response is a page (\<open>c.html\<close>) or a redirection (\<open>c.redirect\<close>).
  \<^item> The \<open>id\<close> parameter goes through \<open>parseInt10\<close>; \<open>number_text\<close> writes the result
    into the address, \<open>NaN\<close> included.
  \<^item> A handler returns \<open>exn + response\<close>; \<open>historyRoutes\<close> passes the exception of a
    handler through \<open>onError\<close>, which turns \<open>ElementDoesntExistException\<close> into the page
    of \<open>renderMissingElement\<close> and throws every other exception again.

  The lemmas show what each route answers for each outcome of the request to the API.
\<close>

record http_response =
  status :: int
  elements :: "OSMElement list option result"

type_synonym fetch = "jsstring \<Rightarrow> http_response result"

datatype response = Html jsstring | Redirect jsstring

datatype request =
    Index
  | NodePhp "jsstring option"
  | WayPhp "jsstring option"
  | RelationPhp "jsstring option"
  | NodeHistory jsstring
  | WayHistory jsstring
  | RelationHistory jsstring

datatype app_request = Root | History request

definition API_URL :: jsstring where
  "API_URL = ascii ''https://api.openstreetmap.org/api/0.6''"

definition response_ok :: "http_response \<Rightarrow> bool" where
  "response_ok response \<longleftrightarrow> 200 \<le> status response \<and> status response \<le> 299"

definition fetchAndParseJson :: "fetch \<Rightarrow> jsstring \<Rightarrow> OSMElement list option result" where
  "fetchAndParseJson fetch urlSuffix =
    (let url' = API_URL @ urlSuffix
     in and_then (fetch url') (\<lambda>response.
          if status response = 404
          then Inl (ElementDoesntExistException url' (status response))
          else if \<not> response_ok response
          then Inl (Error (ascii ''HTTP error: '' @ number_to_string (status response) 0))
          else elements response))"

definition number_text :: "int option \<Rightarrow> jsstring" where
  "number_text n = (case n of None \<Rightarrow> ascii ''NaN'' | Some i \<Rightarrow> number_to_string i 0)"

definition fetchNodeHistory :: "fetch \<Rightarrow> int option \<Rightarrow> OSMElement list option result" where
  "fetchNodeHistory fetch id' =
    fetchAndParseJson fetch (ascii ''/node/'' @ number_text id' @ ascii ''/history.json'')"

definition fetchWayHistory :: "fetch \<Rightarrow> int option \<Rightarrow> OSMElement list option result" where
  "fetchWayHistory fetch id' =
    fetchAndParseJson fetch (ascii ''/way/'' @ number_text id' @ ascii ''/history.json'')"

definition fetchRelationHistory :: "fetch \<Rightarrow> int option \<Rightarrow> OSMElement list option result" where
  "fetchRelationHistory fetch id' =
    fetchAndParseJson fetch (ascii ''/relation/'' @ number_text id' @ ascii ''/history.json'')"

definition node_route :: "fetch \<Rightarrow> jsstring \<Rightarrow> response result" where
  "node_route fetch idParam =
    (let id' = parseInt10 idParam
     in and_then (fetchNodeHistory fetch id') (\<lambda>versions.
          case versions of
            None \<Rightarrow> Inl TypeError
          | Some vs \<Rightarrow>
              (case node_rows vs of (propLines, tagLines) \<Rightarrow>
                 map_result Html (renderNode vs propLines tagLines))))"

definition way_route :: "fetch \<Rightarrow> jsstring \<Rightarrow> response result" where
  "way_route fetch idParam =
    (let id' = parseInt10 idParam
     in and_then (fetchWayHistory fetch id') (\<lambda>versions.
          case versions of
            None \<Rightarrow> Inl TypeError
          | Some vs \<Rightarrow>
              (case way_rows vs of (propLines, tagLines, nodeLines) \<Rightarrow>
                 map_result Html (renderWay vs propLines tagLines nodeLines))))"

definition relation_route :: "fetch \<Rightarrow> jsstring \<Rightarrow> response result" where
  "relation_route fetch idParam =
    (let id' = parseInt10 idParam
     in and_then (fetchRelationHistory fetch id') (\<lambda>versions.
          case versions of
            None \<Rightarrow> Inl TypeError
          | Some vs \<Rightarrow>
              (case relation_rows vs of (propLines, tagLines, memberLines) \<Rightarrow>
                 map_result Html (renderRelation vs propLines tagLines memberLines))))"

definition node_php :: "jsstring option \<Rightarrow> response" where
  "node_php id' =
    (case id' of
       None \<Rightarrow> Redirect (ascii ''/history'')
     | Some i \<Rightarrow>
         if i \<noteq> [] then Redirect (ascii ''/history/node/'' @ i)
         else Redirect (ascii ''/history''))"

definition way_php :: "jsstring option \<Rightarrow> response" where
  "way_php id' =
    (case id' of
       None \<Rightarrow> Redirect (ascii ''/history'')
     | Some i \<Rightarrow>
         if i \<noteq> [] then Redirect (ascii ''/history/way/'' @ i)
         else Redirect (ascii ''/history''))"

definition relation_php :: "jsstring option \<Rightarrow> response" where
  "relation_php id' =
    (case id' of
       None \<Rightarrow> Redirect (ascii ''/history'')
     | Some i \<Rightarrow>
         if i \<noteq> [] then Redirect (ascii ''/history/relation/'' @ i)
         else Redirect (ascii ''/history''))"

definition onError :: "exn \<Rightarrow> response result" where
  "onError err =
    (case err of
       ElementDoesntExistException u s \<Rightarrow> Inr (Html (renderMissingElement u s))
     | _ \<Rightarrow> Inl err)"

definition route :: "fetch \<Rightarrow> request \<Rightarrow> response result" where
  "route fetch req =
    (case req of
       Index \<Rightarrow> Inr (Html renderIndex)
     | NodePhp q \<Rightarrow> Inr (node_php q)
     | WayPhp q \<Rightarrow> Inr (way_php q)
     | RelationPhp q \<Rightarrow> Inr (relation_php q)
     | NodeHistory p \<Rightarrow> node_route fetch p
     | WayHistory p \<Rightarrow> way_route fetch p
     | RelationHistory p \<Rightarrow> relation_route fetch p)"

definition historyRoutes :: "fetch \<Rightarrow> request \<Rightarrow> response result" where
  "historyRoutes fetch req =
    (case route fetch req of Inl err \<Rightarrow> onError err | Inr r \<Rightarrow> Inr r)"

definition app :: "fetch \<Rightarrow> app_request \<Rightarrow> response result" where
  "app fetch req =
    (case req of
       Root \<Rightarrow> Inr (Redirect (ascii ''/history''))
     | History r \<Rightarrow> historyRoutes fetch r)"

definition serve ::
  "(OSMElement list \<Rightarrow> jsstring result) \<Rightarrow> OSMElement list option result \<Rightarrow> response result"
  where
  "serve render fetched =
    and_then fetched (\<lambda>versions.
      case versions of None \<Rightarrow> Inl TypeError | Some vs \<Rightarrow> map_result Html (render vs))"

definition node_page :: "OSMElement list \<Rightarrow> jsstring result" where
  "node_page vs = renderNode vs (node_prop_lines vs) (tag_lines vs)"

definition way_page :: "OSMElement list \<Rightarrow> jsstring result" where
  "way_page vs = renderWay vs (way_prop_lines vs) (tag_lines vs) (node_lines vs)"

definition relation_page :: "OSMElement list \<Rightarrow> jsstring result" where
  "relation_page vs =
    renderRelation vs (relation_prop_lines vs) (tag_lines vs) (member_lines vs)"

definition history_url :: "string \<Rightarrow> jsstring \<Rightarrow> jsstring" where
  "history_url kind idParam =
    API_URL @ ascii (''/'' @ kind @ ''/'') @ number_text (parseInt10 idParam)
      @ ascii ''/history.json''"

fun target :: "request \<Rightarrow> jsstring option" where
  "target (NodeHistory p) = Some (history_url ''node'' p)"
| "target (WayHistory p) = Some (history_url ''way'' p)"
| "target (RelationHistory p) = Some (history_url ''relation'' p)"
| "target _ = None"

fun page_for :: "request \<Rightarrow> OSMElement list \<Rightarrow> jsstring result" where
  "page_for (NodeHistory p) = node_page"
| "page_for (WayHistory p) = way_page"
| "page_for (RelationHistory p) = relation_page"
| "page_for _ = (\<lambda>_. Inl TypeError)"

definition on_site :: "response \<Rightarrow> bool" where
  "on_site r = (case r of Html _ \<Rightarrow> True | Redirect loc \<Rightarrow> take 8 loc = ascii ''/history'')"

lemmas [hist_defs] = serve_def node_page_def way_page_def relation_page_def history_url_def
  on_site_def API_URL_def response_ok_def fetchAndParseJson_def number_text_def
  fetchNodeHistory_def fetchWayHistory_def fetchRelationHistory_def node_route_def way_route_def
  relation_route_def node_php_def way_php_def relation_php_def onError_def route_def historyRoutes_def app_def



subsection \<open>The client of the API\<close>

lemma response_ok_not_404: "response_ok r \<Longrightarrow> status r \<noteq> 404"
  by (simp add: response_ok_def)

lemma fetchAndParseJson_rejected:
  "fetch (API_URL @ sfx) = Inl e \<Longrightarrow> fetchAndParseJson fetch sfx = Inl e"
  by (simp add: fetchAndParseJson_def)

lemma fetchAndParseJson_404:
  "fetch (API_URL @ sfx) = Inr r \<Longrightarrow> status r = 404
    \<Longrightarrow> fetchAndParseJson fetch sfx = Inl (ElementDoesntExistException (API_URL @ sfx) 404)"
  by (simp add: fetchAndParseJson_def)

lemma fetchAndParseJson_not_ok:
  "fetch (API_URL @ sfx) = Inr r \<Longrightarrow> status r \<noteq> 404 \<Longrightarrow> \<not> response_ok r
    \<Longrightarrow> fetchAndParseJson fetch sfx
      = Inl (Error (ascii ''HTTP error: '' @ number_to_string (status r) 0))"
  by (simp add: fetchAndParseJson_def)

lemma fetchAndParseJson_ok:
  "fetch (API_URL @ sfx) = Inr r \<Longrightarrow> response_ok r
    \<Longrightarrow> fetchAndParseJson fetch sfx = elements r"
  by (simp add: fetchAndParseJson_def response_ok_not_404)

lemma fetch_history_eq:
  "fetchNodeHistory fetch (parseInt10 p)
    = fetchAndParseJson fetch (drop (length API_URL) (history_url ''node'' p))"
  "fetchWayHistory fetch (parseInt10 p)
    = fetchAndParseJson fetch (drop (length API_URL) (history_url ''way'' p))"
  "fetchRelationHistory fetch (parseInt10 p)
    = fetchAndParseJson fetch (drop (length API_URL) (history_url ''relation'' p))"
  by (simp_all add: fetchNodeHistory_def fetchWayHistory_def fetchRelationHistory_def
      history_url_def)

lemma history_url_split:
  "API_URL @ drop (length API_URL) (history_url kind p) = history_url kind p"
  by (simp add: history_url_def)


subsection \<open>Handlers\<close>

lemma route_serve:
  "route fetch (NodeHistory p) = serve node_page (fetchNodeHistory fetch (parseInt10 p))"
  "route fetch (WayHistory p) = serve way_page (fetchWayHistory fetch (parseInt10 p))"
  "route fetch (RelationHistory p)
    = serve relation_page (fetchRelationHistory fetch (parseInt10 p))"
  by (simp_all add: route_def node_route_def way_route_def relation_route_def serve_def
      node_page_def way_page_def relation_page_def node_rows_def way_rows_def
      relation_rows_def cong: option.case_cong)

lemma serve_Inl [simp]: "serve render (Inl e) = Inl e"
  by (simp add: serve_def)

lemma serve_None [simp]: "serve render (Inr None) = Inl TypeError"
  by (simp add: serve_def)

lemma serve_Some [simp]: "serve render (Inr (Some vs)) = map_result Html (render vs)"
  by (simp add: serve_def)

lemma onError_simps [simp]:
  "onError (ElementDoesntExistException u s) = Inr (Html (renderMissingElement u s))"
  "onError (Error m) = Inl (Error m)"
  "onError TypeError = Inl TypeError"
  "onError URIError = Inl URIError"
  "onError SyntaxError = Inl SyntaxError"
  by (simp_all add: onError_def)

lemma onError_eq_Inl_iff:
  "onError err = Inl e \<longleftrightarrow> e = err \<and> (\<forall>u s. err \<noteq> ElementDoesntExistException u s)"
  by (cases err) auto

lemma historyRoutes_Inl: "route fetch req = Inl err \<Longrightarrow> historyRoutes fetch req = onError err"
  by (simp add: historyRoutes_def)

lemma historyRoutes_Inr: "route fetch req = Inr r \<Longrightarrow> historyRoutes fetch req = Inr r"
  by (simp add: historyRoutes_def)

lemma route_target:
  "target req = Some u
    \<Longrightarrow> route fetch req
      = serve (page_for req) (fetchAndParseJson fetch (drop (length API_URL) u))"
  by (cases req) (auto simp: route_serve fetch_history_eq)

lemma target_split: "target req = Some u \<Longrightarrow> API_URL @ drop (length API_URL) u = u"
  by (cases req) (auto simp: history_url_split)

lemma route_no_target: "target req = None \<Longrightarrow> route fetch req = route fetch' req"
  by (cases req) (simp_all add: route_def)

lemma route_rejected:
  "target req = Some u \<Longrightarrow> fetch u = Inl e \<Longrightarrow> route fetch req = Inl e"
  using target_split [of req u]
  by (simp add: route_target fetchAndParseJson_rejected)

lemma route_404:
  "target req = Some u \<Longrightarrow> fetch u = Inr r \<Longrightarrow> status r = 404
    \<Longrightarrow> route fetch req = Inl (ElementDoesntExistException u 404)"
  using target_split [of req u] fetchAndParseJson_404 [of fetch "drop (length API_URL) u" r]
  by (simp add: route_target)

lemma route_not_ok:
  "target req = Some u \<Longrightarrow> fetch u = Inr r \<Longrightarrow> status r \<noteq> 404 \<Longrightarrow> \<not> response_ok r
    \<Longrightarrow> route fetch req = Inl (Error (ascii ''HTTP error: '' @ number_to_string (status r) 0))"
  using target_split [of req u]
    fetchAndParseJson_not_ok [of fetch "drop (length API_URL) u" r]
  by (simp add: route_target)

lemma route_ok:
  "target req = Some u \<Longrightarrow> fetch u = Inr r \<Longrightarrow> response_ok r
    \<Longrightarrow> route fetch req = serve (page_for req) (elements r)"
  using target_split [of req u] fetchAndParseJson_ok [of fetch "drop (length API_URL) u" r]
  by (simp add: route_target)


subsection \<open>Pages of the computed rows\<close>

lemma tag_lines_names: "map fst (tag_lines vs) = computeAllTagKeys vs"
  by (simp add: tag_lines_def comp_def)

lemma tag_lines_well_formed:
  "(\<forall>l \<in> set (tag_lines vs). well_formed (fst l)) \<longleftrightarrow> list_all well_formed (computeAllTagKeys vs)"
  using tag_lines_names [of vs, symmetric] by (simp add: list_all_iff)

lemma page_returns_iff:
  "(\<exists>p. node_page vs = Inr p) \<longleftrightarrow> vs \<noteq> [] \<and> list_all well_formed (computeAllTagKeys vs)"
  "(\<exists>p. way_page vs = Inr p) \<longleftrightarrow> vs \<noteq> [] \<and> list_all well_formed (computeAllTagKeys vs)"
  "(\<exists>p. relation_page vs = Inr p) \<longleftrightarrow> vs \<noteq> [] \<and> list_all well_formed (computeAllTagKeys vs)"
  by (simp_all add: node_page_def way_page_def relation_page_def page_frames
      page_frame_returns_iff tag_lines_well_formed)

lemma page_throws_iff:
  "node_page vs = Inl e \<longleftrightarrow>
    (if vs = [] then e = TypeError
     else e = URIError \<and> \<not> list_all well_formed (computeAllTagKeys vs))"
  "way_page vs = Inl e \<longleftrightarrow>
    (if vs = [] then e = TypeError
     else e = URIError \<and> \<not> list_all well_formed (computeAllTagKeys vs))"
  "relation_page vs = Inl e \<longleftrightarrow>
    (if vs = [] then e = TypeError
     else e = URIError \<and> \<not> list_all well_formed (computeAllTagKeys vs))"
  by (simp_all add: node_page_def way_page_def relation_page_def page_frames
      page_frame_throws_iff tag_lines_well_formed)

lemma page_for_returns_iff:
  "target req = Some u \<Longrightarrow>
    (\<exists>p. page_for req vs = Inr p) \<longleftrightarrow> vs \<noteq> [] \<and> list_all well_formed (computeAllTagKeys vs)"
  by (cases req) (simp_all add: page_returns_iff)

lemma page_for_throws_iff:
  "target req = Some u \<Longrightarrow>
    page_for req vs = Inl e \<longleftrightarrow>
      (if vs = [] then e = TypeError
       else e = URIError \<and> \<not> list_all well_formed (computeAllTagKeys vs))"
  by (cases req) (simp_all add: page_throws_iff)



subsection \<open>Answers\<close>

lemma serve_not_redirect: "serve render fetched \<noteq> Inr (Redirect loc)"
  by (cases fetched) (auto simp: serve_def map_result_eq_Inr_iff split: option.splits)

lemma onError_not_redirect: "onError err \<noteq> Inr (Redirect loc)"
  by (cases err) simp_all

lemma on_site_simps [simp]:
  "on_site (Html x)" "on_site (Redirect loc) \<longleftrightarrow> take 8 loc = ascii ''/history''"
  by (simp_all add: on_site_def)

lemma php_on_site:
  "on_site (node_php q)" "on_site (way_php q)" "on_site (relation_php q)"
  by (simp_all add: node_php_def way_php_def relation_php_def ascii_def
      split: option.splits)

lemma route_on_site: "route fetch req = Inr r \<Longrightarrow> on_site r"
proof (cases "target req")
  case None
  assume "route fetch req = Inr r"
  with None show ?thesis
    by (cases req) (auto simp: route_def php_on_site)
next
  case (Some u)
  assume "route fetch req = Inr r"
  with Some show ?thesis
    using serve_not_redirect [of "page_for req"]
    by (cases r) (auto simp: route_target)
qed

lemma historyRoutes_on_site: "historyRoutes fetch req = Inr r \<Longrightarrow> on_site r"
  using onError_not_redirect
  by (cases "route fetch req"; cases r)
    (auto simp: historyRoutes_def dest: route_on_site)

lemma route_no_target_returns: "target req = None \<Longrightarrow> \<exists>r. route fetch req = Inr r"
  by (cases req) (simp_all add: route_def)

lemma history_url_sample:
  "history_url ''node'' (ascii ''42'')
    = ascii ''https://api.openstreetmap.org/api/0.6/node/42/history.json''"
  by (simp add: history_url_def API_URL_def number_text_def parseInt10_def white_space_def
      is_digit_def digits_value_def number_to_string_def pos_number_to_string_def
      sig_exp_def strip_zeros.simps nat_digits.simps digits_text_def digit_char_def
      ascii_def Let_def)


subsection \<open>Properties of the routes\<close>

text \<open>
  C13. When the API answers \<open>404\<close>, the route answers with the page of
  \<open>renderMissingElement\<close>, which shows the address that was requested and the status:
  the \<open>ElementDoesntExistException\<close> of \<open>fetchAndParseJson\<close> is caught by \<open>onError\<close>.
\<close>
theorem missing_element_page:
  "target req = Some u \<Longrightarrow> fetch u = Inr r \<Longrightarrow> status r = 404
    \<Longrightarrow> historyRoutes fetch req = Inr (Html (renderMissingElement u 404))"
  by (simp add: historyRoutes_def route_404)

theorem missing_element_page_witness:
  "historyRoutes (\<lambda>_. Inr \<lparr>status = 404, elements = Inl SyntaxError\<rparr>)
      (NodeHistory (ascii ''42''))
    = Inr (Html (renderMissingElement
        (ascii ''https://api.openstreetmap.org/api/0.6/node/42/history.json'') 404))"
  using missing_element_page [of "NodeHistory (ascii ''42'')"
      "history_url ''node'' (ascii ''42'')"
      "\<lambda>_. Inr \<lparr>status = 404, elements = Inl SyntaxError\<rparr>"
      "\<lparr>status = 404, elements = Inl SyntaxError\<rparr>"]
  by (simp add: history_url_sample)

text \<open>
  C30. When the API answers with a status that is neither \<open>404\<close> nor in the range
  \<open>200\<close> to \<open>299\<close>, the route throws \<open>Error\<close> with the message \<open>HTTP error:\<close> and the
  status; \<open>onError\<close> does not catch it.
\<close>
theorem http_error_thrown:
  "target req = Some u \<Longrightarrow> fetch u = Inr r \<Longrightarrow> status r \<noteq> 404 \<Longrightarrow> \<not> response_ok r
    \<Longrightarrow> historyRoutes fetch req
      = Inl (Error (ascii ''HTTP error: '' @ number_to_string (status r) 0))"
  by (simp add: historyRoutes_def route_not_ok)

theorem http_error_thrown_witness:
  "historyRoutes (\<lambda>_. Inr \<lparr>status = 503, elements = Inl SyntaxError\<rparr>)
      (NodeHistory (ascii ''42''))
    = Inl (Error (ascii ''HTTP error: 503''))"
  using http_error_thrown [of "NodeHistory (ascii ''42'')"
      "history_url ''node'' (ascii ''42'')"
      "\<lambda>_. Inr \<lparr>status = 503, elements = Inl SyntaxError\<rparr>"
      "\<lparr>status = 503, elements = Inl SyntaxError\<rparr>"]
  by (simp add: response_ok_def number_to_string_def pos_number_to_string_def sig_exp_def
      strip_zeros.simps nat_digits.simps digits_text_def digit_char_def ascii_def Let_def)

text \<open>
  C12. When the API answers with a status in the range \<open>200\<close> to \<open>299\<close> and a non-empty
  version list whose tag names are well formed, the route answers with the page that
  the renderer builds from the rows of that list.
\<close>
theorem history_page_served:
  assumes "target req = Some u" "fetch u = Inr r" "response_ok r"
    and "elements r = Inr (Some vs)" "vs \<noteq> []"
    and "list_all well_formed (computeAllTagKeys vs)"
  shows "\<exists>page. page_for req vs = Inr page \<and> historyRoutes fetch req = Inr (Html page)"
proof -
  obtain page where "page_for req vs = Inr page"
    using page_for_returns_iff [OF assms(1), of vs] assms(5,6) by blast
  then show ?thesis
    using route_ok [of req u fetch r] assms(1-4) by (simp add: historyRoutes_def)
qed

theorem history_page_served_witness:
  "\<exists>page. node_page [sample_version 1 (ascii ''alice'')] = Inr page
    \<and> historyRoutes (\<lambda>_. Inr \<lparr>status = 200,
          elements = Inr (Some [sample_version 1 (ascii ''alice'')])\<rparr>)
        (NodeHistory (ascii ''42'')) = Inr (Html page)"
  using history_page_served [of "NodeHistory (ascii ''42'')"
      "history_url ''node'' (ascii ''42'')"
      "\<lambda>_. Inr \<lparr>status = 200, elements = Inr (Some [sample_version 1 (ascii ''alice'')])\<rparr>"
      "\<lparr>status = 200, elements = Inr (Some [sample_version 1 (ascii ''alice'')])\<rparr>"
      "[sample_version 1 (ascii ''alice'')]"]
  by (simp add: response_ok_def computeAllTagKeys_def tags_or_empty_def object_keys_def)

text \<open>
  C14. A route throws only for one of these causes: the request to the API failed; the
  API answered with a status outside \<open>200\<close> to \<open>299\<close> other than \<open>404\<close>; the body could
  not be read; the body has no \<open>elements\<close>; the renderer threw (empty version list or
  ill-formed tag name). The index page and the legacy routes never throw.
\<close>
theorem historyRoutes_failures:
  assumes "historyRoutes fetch req = Inl e"
  shows "\<exists>u. target req = Some u \<and>
    (fetch u = Inl e \<or>
     (\<exists>r. fetch u = Inr r \<and> status r \<noteq> 404 \<and>
        (if response_ok r
         then elements r = Inl e \<or> (elements r = Inr None \<and> e = TypeError)
           \<or> (\<exists>vs. elements r = Inr (Some vs) \<and> page_for req vs = Inl e)
         else e = Error (ascii ''HTTP error: '' @ number_to_string (status r) 0))))"
proof -
  from assms obtain err where err: "route fetch req = Inl err" "onError err = Inl e"
    by (cases "route fetch req") (simp_all add: historyRoutes_def)
  then have e: "e = err" "\<And>u s. err \<noteq> ElementDoesntExistException u s"
    by (simp_all add: onError_eq_Inl_iff)
  from err(1) obtain u where u: "target req = Some u"
    using route_no_target_returns [of req fetch] by (cases "target req") auto
  show ?thesis
  proof (cases "fetch u")
    case (Inl e')
    with u err(1) e(1) show ?thesis by (auto simp: route_rejected)
  next
    case (Inr r)
    have not404: "status r \<noteq> 404"
      using route_404 [of req u fetch r] u Inr err(1) e(2) by auto
    show ?thesis
    proof (cases "response_ok r")
      case False
      with u Inr not404 err(1) e(1) show ?thesis
        by (auto simp: route_not_ok)
    next
      case True
      then have "serve (page_for req) (elements r) = Inl e"
        using route_ok [of req u fetch r] u Inr err(1) e(1) by simp
      then have "elements r = Inl e \<or> (elements r = Inr None \<and> e = TypeError)
          \<or> (\<exists>vs. elements r = Inr (Some vs) \<and> page_for req vs = Inl e)"
        by (cases "elements r") (auto simp: serve_def split: option.splits)
      with u Inr not404 True show ?thesis by auto
    qed
  qed
qed

theorem historyRoutes_failures_witness:
  "historyRoutes (\<lambda>_. Inr \<lparr>status = 200, elements = Inr None\<rparr>) (NodeHistory (ascii ''42''))
      = Inl TypeError
    \<and> (\<exists>u. target (NodeHistory (ascii ''42'')) = Some u)"
proof -
  have "historyRoutes (\<lambda>_. Inr \<lparr>status = 200, elements = Inr None\<rparr>)
      (NodeHistory (ascii ''42'')) = Inl TypeError"
    using route_ok [of "NodeHistory (ascii ''42'')" "history_url ''node'' (ascii ''42'')"
        "\<lambda>_. Inr \<lparr>status = 200, elements = Inr None\<rparr>" "\<lparr>status = 200, elements = Inr None\<rparr>"]
    by (simp add: historyRoutes_def response_ok_def)
  then show ?thesis
    using historyRoutes_failures [of "\<lambda>_. Inr \<lparr>status = 200, elements = Inr None\<rparr>"
        "NodeHistory (ascii ''42'')" TypeError]
    by blast
qed

text \<open>
  C29. Every redirection of the application leads to an address under \<open>/history\<close>: the
  legacy routes prepend a fixed path to the \<open>id\<close> of the query, and no other route
  redirects.
\<close>
theorem redirects_on_site:
  "app fetch req = Inr (Redirect loc) \<Longrightarrow> take 8 loc = ascii ''/history''"
proof (cases req)
  case Root
  assume "app fetch req = Inr (Redirect loc)"
  with Root show ?thesis by (auto simp: app_def ascii_def)
next
  case (History q)
  assume "app fetch req = Inr (Redirect loc)"
  with History show ?thesis
    using historyRoutes_on_site [of fetch q "Redirect loc"]
    by (simp add: app_def)
qed

theorem redirects_on_site_witness:
  "app (\<lambda>_. Inl TypeError) (History (WayPhp (Some (ascii ''7''))))
      = Inr (Redirect (ascii ''/history/way/7''))
    \<and> take 8 (ascii ''/history/way/7'') = ascii ''/history''"
proof -
  have "app (\<lambda>_. Inl TypeError) (History (WayPhp (Some (ascii ''7''))))
      = Inr (Redirect (ascii ''/history/way/7''))"
    by (simp add: app_def historyRoutes_def route_def way_php_def ascii_def)
  then show ?thesis
    using redirects_on_site [of "\<lambda>_. Inl TypeError" "History (WayPhp (Some (ascii ''7'')))"
        "ascii ''/history/way/7''"]
    by simp
qed

text \<open>
  The index page and the legacy routes do not call the API: their answer is the
  same whatever the network does.
\<close>
theorem static_routes_need_no_fetch:
  "target req = None \<Longrightarrow> historyRoutes fetch req = historyRoutes fetch' req"
  by (simp add: historyRoutes_def route_no_target [of req fetch fetch'])

theorem static_routes_need_no_fetch_witness:
  "target (NodePhp None) = None
    \<and> historyRoutes (\<lambda>_. Inl TypeError) (NodePhp None) = Inr (Redirect (ascii ''/history''))"
  using static_routes_need_no_fetch [of "NodePhp None" "\<lambda>_. Inl TypeError"
      "\<lambda>_. Inr \<lparr>status = 200, elements = Inr None\<rparr>"]
  by (simp add: historyRoutes_def route_def node_php_def)

text \<open>
  \<open>ElementDoesntExistException\<close> never leaves \<open>historyRoutes\<close>: whatever route
  throws it, \<open>onError\<close> answers with a page.
\<close>
theorem missing_element_never_thrown:
  "historyRoutes fetch req \<noteq> Inl (ElementDoesntExistException u s)"
  by (cases "route fetch req") (auto simp: historyRoutes_def onError_eq_Inl_iff)


end
