(* ===== verification/Browser.thy ===== *)
theory Browser
  imports Render
begin

text \<open>
  The script \<open>public/history/app.js\<close> that runs in the page, and its agreement with the
  table header that \<open>renderTableHeader\<close> writes.

  \<^item> The document is seen through \<open>document.getElementById\<close> only: it is the list of the
    \<open>id\<close> attributes of its elements, in document order, and an element is its position
    in that list. \<open>getElementById\<close> returns the first element with the given id.
  \<^item> \<open>scrollToId\<close> and \<open>onload\<close> return the element that is scrolled into view, or
    \<open>None\<close> when nothing is scrolled.
  \<^item> \<open>heading_id\<close> and \<open>page_ids\<close> are specifications: the id that \<open>versionHeading\<close>
    gives to the heading of a version, and the ids of a page in the order of the
    versions.

  The lemmas show that the links of the header and the script agree: the link of a
  version, and the link to the most recent version, scroll to the column of that
  version.
\<close>

definition getElementById :: "jsstring list \<Rightarrow> jsstring \<Rightarrow> nat option" where
  "getElementById ids id' =
    (if first_index ids id' < length ids then Some (first_index ids id') else None)"

definition scrollToId :: "jsstring list \<Rightarrow> jsstring \<Rightarrow> nat option" where
  "scrollToId ids id' =
    (let el = getElementById ids id'
     in case el of None \<Rightarrow> None | Some e \<Rightarrow> Some e)"

definition startsWith :: "jsstring \<Rightarrow> jsstring \<Rightarrow> bool" where
  "startsWith s p \<longleftrightarrow> take (length p) s = p"

definition onload :: "jsstring list \<Rightarrow> jsstring \<Rightarrow> nat option" where
  "onload ids hash =
    (if startsWith hash (ascii ''#version'') then scrollToId ids (drop 1 hash) else None)"

definition heading_id :: "OSMElement \<Rightarrow> jsstring" where
  "heading_id v = ascii ''version-'' @ number_to_string (version v) 0"

definition page_ids :: "OSMElement list \<Rightarrow> jsstring list" where
  "page_ids versions = map heading_id versions"

definition small_version :: "OSMElement \<Rightarrow> bool" where
  "small_version v \<longleftrightarrow> length (nat_digits (nat \<bar>version v\<bar>)) \<le> 21"

lemmas [hist_defs] = getElementById_def scrollToId_def startsWith_def onload_def
  heading_id_def page_ids_def small_version_def first_index.simps


subsection \<open>The script\<close>

lemma getElementById_eq:
  "getElementById ids x = (if x \<in> set ids then Some (first_index ids x) else None)"
  by (simp add: getElementById_def first_index_less_iff)

lemma scrollToId_eq [simp]: "scrollToId ids x = getElementById ids x"
  by (simp add: scrollToId_def split: option.splits)

lemma first_index_nth_distinct:
  "distinct xs \<Longrightarrow> i < length xs \<Longrightarrow> first_index xs (xs ! i) = i"
  using nth_first_index [of "xs ! i" xs] first_index_less_iff [of xs "xs ! i"]
  by (simp add: nth_eq_iff_index_eq)

lemma onload_version_hash:
  "onload ids (ascii ''#'' @ heading_id v) = getElementById ids (heading_id v)"
  by (simp add: onload_def startsWith_def heading_id_def ascii_def)


subsection \<open>The ids of the header\<close>


lemma heading_id_inj:
  "small_version v \<Longrightarrow> small_version w \<Longrightarrow> heading_id v = heading_id w
    \<Longrightarrow> version v = version w"
  by (auto simp: heading_id_def small_version_def intro: number_to_string_inj)

lemma distinct_page_ids:
  assumes "distinct (map version vs)" "list_all small_version vs"
  shows "distinct (page_ids vs)"
proof -
  have "inj_on heading_id (set vs)"
  proof (rule inj_onI)
    fix v w assume vw: "v \<in> set vs" "w \<in> set vs" "heading_id v = heading_id w"
    then have "version v = version w"
      using assms(2) by (auto simp: list_all_iff intro: heading_id_inj)
    with vw(1,2) assms(1) show "v = w"
      by (auto simp: distinct_map dest: inj_onD)
  qed
  moreover have "distinct vs"
    using assms(1) by (simp add: distinct_map)
  ultimately show ?thesis
    by (simp add: page_ids_def distinct_map)
qed

lemma onload_column:
  assumes "distinct (map version vs)" "list_all small_version vs" "i < length vs"
  shows "onload (page_ids vs) (ascii ''#'' @ heading_id (vs ! i)) = Some i"
proof -
  have "first_index (page_ids vs) (page_ids vs ! i) = i"
    using distinct_page_ids [OF assms(1,2)] assms(3)
    by (intro first_index_nth_distinct) (simp_all add: page_ids_def)
  then show ?thesis
    using assms(3) by (simp add: onload_version_hash getElementById_eq page_ids_def)
qed



subsection \<open>Properties of the script\<close>



text \<open>
  The link \<open>Go to Recent\<close> of the header names the id of the last version, so it scrolls
  to the last column.
\<close>
theorem go_to_recent_scrolls:
  assumes "distinct (map version vs)" "list_all small_version vs" "vs \<noteq> []"
  shows "onload (page_ids vs) (ascii ''#'' @ heading_id (last vs)) = Some (length vs - 1)"
  using onload_column [OF assms(1,2), of "length vs - 1"] assms(3)
  by (simp add: last_conv_nth)

text \<open>
  A hash that does not start with \<open>#version\<close> scrolls nothing.
\<close>
theorem other_hash_ignored:
  "\<not> startsWith hash (ascii ''#version'') \<Longrightarrow> onload ids hash = None"
  by (simp add: onload_def)

end
