(* ===== verification/Spec2Isabelle.thy ===== *)
theory Spec2Isabelle
  imports Prelude JSValue Types Api History Templates Result Uri Render Routes Browser
begin

text \<open>
  \<^bold>\<open>Verification of the OSM deep-history worker.\<close>

  The program serves, for one OpenStreetMap node, way or relation, a table with one column
  per version of the element and one row per attribute, tag, way node or relation member.
  A route of \<open>src/routes/history.ts\<close> parses the \<open>id\<close> of the request, fetches the
  version list from the OSM API (\<open>src/api.ts\<close>), computes the rows with \<open>changeRow\<close> and
  \<open>computeAllTagKeys\<close> (\<open>src/api.ts\<close>) and hands them to a page template
  (\<open>src/templates.ts\<close>); \<open>src/index.ts\<close> mounts the routes. Everything but the network
  is a pure function: every definition below is total and evaluates by
  \<open>simp add: hist_defs\<close>.

  \<^bold>\<open>Theories and what they model.\<close>

  \<^item> \<open>Prelude\<close>: strings as lists of UTF-16 code units (\<open>jsstring\<close>, 16-bit words), the
    specification \<open>first_seen\<close> of the collecting loops and \<open>first_index\<close>, with their
    lemmas (distinctness, order of first occurrence).
  \<^item> \<open>JSValue\<close>: the values an accessor returns (\<open>jsval\<close>: \<open>null\<close>, \<open>undefined\<close>,
    booleans, decimal numbers, strings) and the built-ins the program applies:
    \<open>js_truthy\<close>, \<open>js_String\<close> with \<open>number_to_string\<close>, \<open>js_replace\<close> with the
    replacement patterns of \<open>get_substitution\<close>, and \<open>parseInt10\<close>.
  \<^item> \<open>Types\<close>: the interfaces of \<open>src/types.ts\<close> as records (\<open>OSMElement\<close>, \<open>OSMMember\<close>,
    \<open>CellInfo\<close>); optional properties are \<open>option\<close>s; the class of a cell is the
    datatype \<open>clz\<close>.
  \<^item> \<open>Api\<close>: \<open>computeAllTagKeys\<close>, \<open>pairwise\<close> and \<open>changeRow\<close> of \<open>src/api.ts\<close>. The loop
    of \<open>pairwise\<close> is the function \<open>pairwise_from\<close>, with the measure
    \<open>arr.length - 1 - i\<close>; the loop body of \<open>changeRow\<close> is \<open>changeCell\<close>, with
    \<open>classify\<close> for its \<open>if\<close> chain, \<open>cell_val\<close> and \<open>cell_url\<close> for the two other fields.
    \<open>spec_classify\<close> and \<open>spec_row\<close> are the table and the single pass of the
    specification.
  \<^item> \<open>History\<close>: the accessors and the \<open>propLines\<close>, \<open>tagLines\<close>, \<open>nodeLines\<close> and
    \<open>memberLines\<close> arrays of the three routes of \<open>src/routes/history.ts\<close>, with the
    loops \<open>all_nodes\<close> and \<open>all_members\<close>.
  \<^item> \<open>Templates\<close>: \<open>escapeHtml\<close>, \<open>truncate\<close>, \<open>getTypeIcon\<close> and \<open>renderCell\<close> of
    \<open>src/templates.ts\<close>.
  \<^item> \<open>Result\<close>: exceptions as values of the sum type \<open>exn + 'a\<close>, with \<open>and_then\<close> and
    \<open>sequence\<close> for the order of evaluation.
  \<^item> \<open>Uri\<close>: the built-in \<open>encodeURIComponent\<close> (surrogate pairs, UTF-8 octets, percent
    escapes, \<open>URIError\<close>).
  \<^item> \<open>Render\<close>: every other template of \<open>src/templates.ts\<close>, with the exact text of its
    template literal: \<open>baseTemplate\<close>, \<open>renderTableHeader\<close>, \<open>renderPropLines\<close>,
    \<open>renderTagLines\<close>, \<open>renderIndex\<close>, \<open>renderNode\<close>, \<open>renderWay\<close>, \<open>renderRelation\<close>
    and \<open>renderMissingElement\<close>.
  \<^item> \<open>Routes\<close>: \<open>fetchAndParseJson\<close> and the three fetch functions of \<open>src/api.ts\<close> over
    a network that is a parameter, the handlers and \<open>onError\<close> of
    \<open>src/routes/history.ts\<close>, and \<open>app\<close> of \<open>src/index.ts\<close>.
  \<^item> \<open>Browser\<close>: \<open>scrollToId\<close> and the \<open>onload\<close> handler of \<open>public/history/app.js\<close>,
    over a document that is the list of the ids of its elements.
  \<^item> This theory: the shape of the rows of a page, which spans the routes and the diff
    engine.

  \<^bold>\<open>What is proved.\<close>

  \<^item> Diff engine (\<open>Api\<close>): a row has one cell per version; cell \<open>i\<close> depends on versions
    \<open>i - 1\<close> and \<open>i\<close> only; \<open>classify\<close> is the specification's table when \<open>null\<close> stands
    for absent; \<open>changeRow\<close> refines the single pass \<open>spec_row\<close> for accessors that
    return \<open>null\<close> for absent, and yields \<open>new\<close> followed by \<open>changed\<close> or \<open>unchanged\<close>
    only for accessors that never return \<open>null\<close>; display values are never \<open>null\<close> or
    \<open>undefined\<close>; a link exists exactly for a non-empty template and a truthy value;
    the tag names are the first-seen list of all keys; the loop of \<open>pairwise\<close>
    terminates.
  \<^item> Rows (\<open>History\<close>): node rows follow the specification's table over positions;
    tag rows and member rows do not, since their accessors return \<open>undefined\<close> and
    booleans; the node and member lists are first-seen lists; the links of the User and
    Changeset rows, with the effect of a \<open>$\<close> pattern in a user name.
  \<^item> Renderer (\<open>Templates\<close>, \<open>Uri\<close>, \<open>Render\<close>): the five passes of \<open>escapeHtml\<close> equal
    one pass of \<open>escape_char\<close>; escaped and percent-encoded text holds no markup
    character; the markup characters of a cell, a section and a page depend only on the
    number of versions and the shape of the rows, never on the text shown; a page
    function throws \<open>TypeError\<close> exactly for an empty version list and \<open>URIError\<close>
    exactly for a tag name with an unpaired surrogate.
  \<^item> Routes (\<open>Routes\<close>): for each outcome of the request to the API, what the route
    answers: the page for a good answer, the missing-element page for \<open>404\<close>, a thrown
    \<open>Error\<close> for any other status, and the complete list of causes of an exception;
    redirections stay under \<open>/history\<close>; the static routes do not use the network;
    \<open>parseInt10\<close> inverts \<open>number_to_string\<close>.
  \<^item> Browser script (\<open>Browser\<close>): the link of a version in the header and the link to
    the most recent version scroll to the column of that version, when the version
    numbers are distinct.
  \<^item> Across components (here): every line of every section of a page has one cell per
    version.

  \<^bold>\<open>Domain of the model.\<close> Numbers are decimals \<open>m / 10 ^ e\<close> (\<open>JNum m e\<close>), which
  covers every number a JSON document of the OSM API holds; on canonical decimals
  (\<open>num_ok\<close>) strict equality is equality, provided the number has at most 15 significant
  digits, so that distinct decimals are distinct doubles. Integers are exact, where a
  JavaScript number is exact up to \<open>2 ^ 53\<close>: the model of \<open>parseInt\<close> and of a number in
  a template agrees with the program for ids below that bound. \<open>NaN\<close> occurs as the
  result of \<open>parseInt\<close> only, as \<open>None\<close>. A tag name is assumed not to be the name of a
  property of \<open>Object.prototype\<close>, so that \<open>v.tags?.[t]\<close> is a lookup in the tags alone.
  The body of a response is the outcome of reading its \<open>elements\<close>: an exception,
  \<open>undefined\<close> or a list of well-typed versions. No definition uses fuel: every loop of
  the program runs over a finite list, and the one index loop has a measure.

  \<^bold>\<open>Not modelled.\<close> The matching of a path by the Hono router (a request is the matched
  route with the text of its parameter), the status line and the headers of a response,
  the answer of Hono to an exception that \<open>onError\<close> throws again, and the document
  object model of the browser beyond the ids of the elements: the script is modelled
  over the list of ids, and the scrolling itself is the element it returns.
\<close>

definition page_line_ok :: "nat \<Rightarrow> 'k \<times> CellInfo list \<Rightarrow> bool" where
  "page_line_ok n l \<longleftrightarrow> length (snd l) = n \<and> list_all cell_ok (snd l)"

lemma page_line_ok_changeRow: "page_line_ok (length vs) (k, changeRow vs g t)"
  by (simp add: page_line_ok_def changeRow_map list_all_iff cell_ok_changeCell)

lemma list_all_page_line_ok_map:
  "list_all (page_line_ok (length vs)) (map (\<lambda>k. (k, changeRow vs (g k) t)) ks)"
  by (simp add: list_all_iff page_line_ok_changeRow)

lemma common_prop_lines_ok: "list_all (page_line_ok (length vs)) (common_prop_lines vs)"
  by (simp add: common_prop_lines_def page_line_ok_changeRow)

lemma tag_lines_ok: "list_all (page_line_ok (length vs)) (tag_lines vs)"
  by (simp add: tag_lines_def list_all_page_line_ok_map)

text \<open>
  C10. On a way page, every property line, every tag line and every node line has exactly
  one cell per version, and no cell has a \<open>null\<close> or \<open>undefined\<close> display value; there is
  one tag line per collected tag name and one node line per collected node id, in the
  order of collection.
\<close>
theorem way_rows_shape:
  "(case way_rows versions of (propLines, tagLines, nodeLines) \<Rightarrow>
      list_all (page_line_ok (length versions)) propLines
      \<and> list_all (page_line_ok (length versions)) tagLines
      \<and> list_all (page_line_ok (length versions)) nodeLines
      \<and> map fst propLines = [ascii ''User'', ascii ''Visible'', ascii ''Changeset'']
      \<and> map fst tagLines = computeAllTagKeys versions
      \<and> map fst nodeLines = all_nodes versions)"
  by (simp add: way_rows_def way_prop_lines_def common_prop_lines_ok tag_lines_ok
      node_lines_def list_all_page_line_ok_map)
    (simp add: common_prop_lines_def tag_lines_def comp_def)

text \<open>
  On a relation page, every property line, every tag line and every member line has
  exactly one cell per version with a display value that is neither \<open>null\<close> nor
  \<open>undefined\<close>, and there is one member line per collected member.
\<close>
theorem relation_rows_shape:
  "(case relation_rows versions of (propLines, tagLines, memberLines) \<Rightarrow>
      list_all (page_line_ok (length versions)) propLines
      \<and> list_all (page_line_ok (length versions)) tagLines
      \<and> list_all (page_line_ok (length versions)) memberLines
      \<and> map fst propLines = [ascii ''User'', ascii ''Visible'', ascii ''Changeset'']
      \<and> map fst tagLines = computeAllTagKeys versions
      \<and> map fst memberLines = all_members versions)"
  by (simp add: relation_rows_def relation_prop_lines_def common_prop_lines_ok tag_lines_ok
      member_lines_def list_all_page_line_ok_map)
    (simp add: common_prop_lines_def tag_lines_def comp_def)

text \<open>
  On a node page, the five property lines (user, visibility, changeset, latitude,
  longitude) and every tag line have exactly one cell per version with a display value
  that is neither \<open>null\<close> nor \<open>undefined\<close>.
\<close>
theorem node_rows_shape:
  "(case node_rows versions of (propLines, tagLines) \<Rightarrow>
      list_all (page_line_ok (length versions)) propLines
      \<and> list_all (page_line_ok (length versions)) tagLines
      \<and> map fst propLines
        = [ascii ''User'', ascii ''Visible'', ascii ''Changeset'', ascii ''Lat'', ascii ''Lon'']
      \<and> map fst tagLines = computeAllTagKeys versions)"
  by (simp add: node_rows_def node_prop_lines_def common_prop_lines_ok tag_lines_ok
      page_line_ok_changeRow)
    (simp add: common_prop_lines_def tag_lines_def comp_def)

end
